theory Spec2Isabelle
  imports Complex_Main "HOL-Library.Sublist"
begin

section \<open>Values, columns and frames\<close>

text \<open>
  The script \<^verbatim>\<open>streamlit_airbnb_dashboard.py\<close> works on a pandas frame. A frame is
  modelled column by column, as pandas stores it: every column has a dtype, and the
  dtype fixes what its cells can hold. \<^verbatim>\<open>int64\<close> and \<^verbatim>\<open>float64\<close> columns are both
  \<open>Float64\<close>; a number is the rational it denotes (rounding to the nearest double and
  the infinities are outside the model), and a missing number (NaN) is \<open>None\<close>. An
  \<open>Object\<close> column, as \<^verbatim>\<open>read_csv\<close> produces it, holds text, booleans and NaN.
  A timestamp is a number of nanoseconds since the epoch; \<open>None\<close> is NaT.
\<close>

datatype pyobj = PyStr string | PyBool bool

datatype column =
    Float64 "rat option list"
  | Object "pyobj option list"
  | Boolean "bool list"
  | Datetime64 "int option list"

datatype cell = NaN | Num rat | Str string | Flag bool | Stamp int

record dataframe =
  index :: "nat list"
  columns :: "(string \<times> column) list"

datatype error =
    FileNotFoundError
  | KeyError string
  | ValueError string
  | AttributeError
  | TypeError

text \<open>The cells of a column, as the values Python code reads from it.\<close>

fun float_cell :: "rat option \<Rightarrow> cell" where
  "float_cell None = NaN"
| "float_cell (Some r) = Num r"

fun object_cell :: "pyobj option \<Rightarrow> cell" where
  "object_cell None = NaN"
| "object_cell (Some (PyStr s)) = Str s"
| "object_cell (Some (PyBool b)) = Flag b"

fun stamp_cell :: "int option \<Rightarrow> cell" where
  "stamp_cell None = NaN"
| "stamp_cell (Some t) = Stamp t"

fun cells :: "column \<Rightarrow> cell list" where
  "cells (Float64 xs) = map float_cell xs"
| "cells (Object xs) = map object_cell xs"
| "cells (Boolean xs) = map Flag xs"
| "cells (Datetime64 xs) = map stamp_cell xs"

fun is_object :: "column \<Rightarrow> bool" where
  "is_object (Object xs) = True"
| "is_object c = False"

text \<open>
  \<^verbatim>\<open>df[col]\<close>: the column of that name. No such column is a \<^verbatim>\<open>KeyError\<close>. With two
  columns of that name pandas returns a frame, and the attribute the script reads next
  (\<^verbatim>\<open>.dtype\<close>, \<^verbatim>\<open>.unique\<close>) does not exist on a frame.
\<close>

definition getitem :: "dataframe \<Rightarrow> string \<Rightarrow> error + column" where
  "getitem df col =
     (case filter (\<lambda>(n, c). n = col) (columns df) of
        [] \<Rightarrow> Inl (KeyError col)
      | [(n, c)] \<Rightarrow> Inr c
      | _ \<Rightarrow> Inl AttributeError)"

text \<open>\<^verbatim>\<open>df[col] = s\<close>: replaces the column of that name where it stands, or appends it.\<close>

definition setitem :: "dataframe \<Rightarrow> string \<Rightarrow> column \<Rightarrow> dataframe" where
  "setitem df col s =
     (if col \<in> set (map fst (columns df))
      then df\<lparr>columns := map (\<lambda>(n, c). if n = col then (n, s) else (n, c)) (columns df)\<rparr>
      else df\<lparr>columns := columns df @ [(col, s)]\<rparr>)"

section \<open>Text\<close>

text \<open>
  Python's \<^verbatim>\<open>str.strip()\<close> removes white space at both ends (the ASCII characters
  for which \<^verbatim>\<open>str.isspace\<close> holds); \<^verbatim>\<open>str.replace(a, r)\<close> with a one-character
  pattern replaces every occurrence of the character.
\<close>

definition is_space :: "char \<Rightarrow> bool" where
  "is_space c = ((of_char c :: nat) \<in> {9, 10, 11, 12, 13, 28, 29, 30, 31, 32})"

definition strip :: "string \<Rightarrow> string" where
  "strip s = rev (dropWhile is_space (rev (dropWhile is_space s)))"

definition replace :: "char \<Rightarrow> string \<Rightarrow> string \<Rightarrow> string" where
  "replace a r s = concat (map (\<lambda>c. if c = a then r else [c]) s)"

definition lower :: "string \<Rightarrow> string" where
  "lower s = map (\<lambda>c. if 65 \<le> (of_char c :: nat) \<and> (of_char c :: nat) \<le> 90
                        then char_of ((of_char c :: nat) + 32) else c) s"

subsection \<open>Python's float(text)\<close>

text \<open>
  \<^verbatim>\<open>float(s)\<close> accepts, between optional white space, an optional sign and then
  \<^verbatim>\<open>nan\<close> or a decimal number: digits with an optional fraction and an optional
  exponent, single underscores allowed between digits. \<open>py_float s\<close> is \<open>None\<close> where
  Python raises \<^verbatim>\<open>ValueError\<close>, and \<open>Some None\<close> for NaN. The texts \<^verbatim>\<open>inf\<close> and
  \<^verbatim>\<open>infinity\<close> are not modelled: the model has no infinite number.
\<close>

definition is_digit :: "char \<Rightarrow> bool" where
  "is_digit c = (48 \<le> (of_char c :: nat) \<and> (of_char c :: nat) \<le> 57)"

definition digit_val :: "char \<Rightarrow> nat" where
  "digit_val c = of_char c - 48"

text \<open>
  A run of digits: the value read so far, the number of digits read so far, the input.
  Returns the value, the number of digits and what follows the run.
\<close>

fun digitpart :: "nat \<Rightarrow> nat \<Rightarrow> string \<Rightarrow> nat \<times> nat \<times> string" where
  "digitpart v k [] = (v, k, [])"
| "digitpart v k (c # cs) =
     (if is_digit c then digitpart (10 * v + digit_val c) (Suc k) cs
      else if c = CHR ''_'' \<and> 0 < k \<and> (case cs of [] \<Rightarrow> False | d # ds \<Rightarrow> is_digit d)
      then digitpart v k cs
      else (v, k, c # cs))"

fun sign :: "string \<Rightarrow> bool \<times> string" where
  "sign [] = (False, [])"
| "sign (c # cs) =
     (if c = CHR ''-'' then (True, cs) else if c = CHR ''+'' then (False, cs) else (False, c # cs))"

definition exponent :: "string \<Rightarrow> int option" where
  "exponent s =
     (case s of
        [] \<Rightarrow> Some 0
      | c # cs \<Rightarrow>
          if c = CHR ''e'' \<or> c = CHR ''E''
          then (case sign cs of (neg, ds) \<Rightarrow>
                 (case digitpart 0 0 ds of (e, k, rest) \<Rightarrow>
                    if 0 < k \<and> rest = [] then Some (if neg then - int e else int e) else None))
          else None)"

definition scale :: "rat \<Rightarrow> int \<Rightarrow> rat" where
  "scale r e = (if 0 \<le> e then r * 10 ^ nat e else r / 10 ^ nat (- e))"

definition py_float :: "string \<Rightarrow> rat option option" where
  "py_float s =
     (case sign (strip s) of (neg, u) \<Rightarrow>
        if lower u = ''nan'' then Some None
        else
          (case digitpart 0 0 u of (m, k1, r1) \<Rightarrow>
             (case (case r1 of
                      [] \<Rightarrow> (0, 0, r1)
                    | c # cs \<Rightarrow> if c = CHR ''.'' then digitpart 0 0 cs else (0, 0, r1)) of
                (f, k2, r2) \<Rightarrow>
                  if k1 + k2 = 0 then None
                  else
                    (case exponent r2 of
                       None \<Rightarrow> None
                     | Some e \<Rightarrow>
                         let v = scale (of_nat m + of_nat f / 10 ^ k2) e
                         in Some (Some (if neg then - v else v))))))"

section \<open>Loading and cleaning\<close>

text \<open>
  The file system gives, for a path, the frame \<^verbatim>\<open>pd.read_csv\<close> returns for the file
  there (parsing the text and inferring the dtypes is pandas' work), or nothing when
  no file is there.
\<close>

type_synonym filesystem = "string \<Rightarrow> dataframe option"

definition read_csv :: "filesystem \<Rightarrow> string \<Rightarrow> error + dataframe" where
  "read_csv fs file_path =
     (case fs file_path of None \<Rightarrow> Inl FileNotFoundError | Some df \<Rightarrow> Inr df)"

definition numeric_cols :: "string list" where
  "numeric_cols = [''price'', ''service_fee'', ''minimum_nights'', ''number_of_reviews'',
                   ''reviews_per_month'', ''availability_365'']"

text \<open>\<^verbatim>\<open>df.columns = df.columns.str.strip().str.replace(' ', '_')\<close>\<close>

definition clean_column_names :: "dataframe \<Rightarrow> dataframe" where
  "clean_column_names df =
     df\<lparr>columns := map (\<lambda>(n, c). (replace CHR '' '' ''_'' (strip n), c)) (columns df)\<rparr>"

text \<open>
  The \<^verbatim>\<open>.str\<close> accessor exists on an object column whose values are text, text
  mixed with others, or all missing; on a column of booleans only, and on every other
  dtype, reading it raises \<^verbatim>\<open>AttributeError\<close>. \<^verbatim>\<open>.str.replace\<close> rewrites the text
  cells; a cell that is not text becomes NaN.
\<close>

fun is_text :: "pyobj option \<Rightarrow> bool" where
  "is_text (Some (PyStr s)) = True"
| "is_text x = False"

fun str_replace_cell :: "char \<Rightarrow> string \<Rightarrow> pyobj option \<Rightarrow> pyobj option" where
  "str_replace_cell a r (Some (PyStr s)) = Some (PyStr (replace a r s))"
| "str_replace_cell a r x = None"

fun str_replace :: "char \<Rightarrow> string \<Rightarrow> column \<Rightarrow> error + column" where
  "str_replace a r (Object xs) =
     (if list_ex is_text xs \<or> list_all (\<lambda>x. x = None) xs
      then Inr (Object (map (str_replace_cell a r) xs))
      else Inl AttributeError)"
| "str_replace a r c = Inl AttributeError"

text \<open>
  \<^verbatim>\<open>.astype(float)\<close>: every text cell goes through \<^verbatim>\<open>float\<close>, and the first one that
  does not parse raises \<^verbatim>\<open>ValueError\<close> for the whole column.
\<close>

fun float_of_obj :: "pyobj option \<Rightarrow> error + rat option" where
  "float_of_obj None = Inr None"
| "float_of_obj (Some (PyBool b)) = Inr (Some (if b then 1 else 0))"
| "float_of_obj (Some (PyStr s)) =
     (case py_float s of None \<Rightarrow> Inl (ValueError s) | Some v \<Rightarrow> Inr v)"

fun floats_of_objs :: "pyobj option list \<Rightarrow> error + rat option list" where
  "floats_of_objs [] = Inr []"
| "floats_of_objs (x # xs) =
     (case float_of_obj x of
        Inl e \<Rightarrow> Inl e
      | Inr v \<Rightarrow> (case floats_of_objs xs of Inl e \<Rightarrow> Inl e | Inr vs \<Rightarrow> Inr (v # vs)))"

fun astype_float :: "column \<Rightarrow> error + column" where
  "astype_float (Object xs) =
     (case floats_of_objs xs of Inl e \<Rightarrow> Inl e | Inr vs \<Rightarrow> Inr (Float64 vs))"
| "astype_float (Float64 xs) = Inr (Float64 xs)"
| "astype_float (Boolean xs) = Inr (Float64 (map (\<lambda>b. Some (if b then 1 else 0)) xs))"
| "astype_float (Datetime64 xs) = Inl TypeError"

text \<open>
  \<^verbatim>\<open>pd.to_numeric(s, errors='coerce')\<close>: a numeric or boolean column is returned as it
  is, timestamps become their nanosecond counts (NaT the least 64-bit integer), and in
  an object column a cell that does not parse becomes NaN.
\<close>

fun coerce_obj :: "pyobj option \<Rightarrow> rat option" where
  "coerce_obj None = None"
| "coerce_obj (Some (PyBool b)) = Some (if b then 1 else 0)"
| "coerce_obj (Some (PyStr s)) = (case py_float s of None \<Rightarrow> None | Some v \<Rightarrow> v)"

fun to_numeric :: "column \<Rightarrow> column" where
  "to_numeric (Float64 xs) = Float64 xs"
| "to_numeric (Boolean xs) = Boolean xs"
| "to_numeric (Datetime64 xs) =
     Float64 (map (\<lambda>t. case t of None \<Rightarrow> Some (- (2 ^ 63)) | Some n \<Rightarrow> Some (of_int n)) xs)"
| "to_numeric (Object xs) = Float64 (map coerce_obj xs)"

text \<open>
  One pass of the loop body of \<^verbatim>\<open>load_data\<close> over a column:
  \<^verbatim>\<open>
  if df[col].dtype == 'object':
      df[col] = df[col].str.replace('$', '').str.replace(',', '').astype(float)
  else:
      df[col] = pd.to_numeric(df[col], errors='coerce')
  \<close>
\<close>

definition convert_column :: "column \<Rightarrow> error + column" where
  "convert_column s =
     (if is_object s
      then (case str_replace CHR ''$'' '''' s of
              Inl e \<Rightarrow> Inl e
            | Inr s1 \<Rightarrow>
                (case str_replace CHR '','' '''' s1 of
                   Inl e \<Rightarrow> Inl e
                 | Inr s2 \<Rightarrow> astype_float s2))
      else Inr (to_numeric s))"

fun convert_numeric_cols :: "string list \<Rightarrow> dataframe \<Rightarrow> error + dataframe" where
  "convert_numeric_cols [] df = Inr df"
| "convert_numeric_cols (col # cols) df =
     (case getitem df col of
        Inl e \<Rightarrow> Inl e
      | Inr s \<Rightarrow>
          (case convert_column s of
             Inl e \<Rightarrow> Inl e
           | Inr s' \<Rightarrow> convert_numeric_cols cols (setitem df col s')))"

text \<open>
  \<^verbatim>\<open>pd.to_datetime(s, errors='coerce')\<close>. Of the date texts pandas reads, the model
  recognises \<^verbatim>\<open>YYYY-MM-DD\<close> and \<^verbatim>\<open>M/D/YYYY\<close>; a text it does not recognise, a date
  that does not exist and a value outside the 64-bit nanosecond range become NaT. In
  a text column pandas takes the format of the first cell that is not missing, when
  that cell is a text whose format it can tell, and reads every cell in that format:
  a cell in another format becomes NaT. Otherwise every cell is read on its own. A
  number is a count of nanoseconds, its fraction cut off. A boolean is never a date.
\<close>

fun split_on :: "char \<Rightarrow> string \<Rightarrow> string list" where
  "split_on a [] = [[]]"
| "split_on a (c # cs) =
     (if c = a then [] # split_on a cs
      else (case split_on a cs of [] \<Rightarrow> [[c]] | w # ws \<Rightarrow> (c # w) # ws))"

definition digits_value :: "string \<Rightarrow> nat" where
  "digits_value s = foldl (\<lambda>v c. 10 * v + digit_val c) 0 s"

definition nat_of_digits :: "string \<Rightarrow> nat option" where
  "nat_of_digits s = (if s \<noteq> [] \<and> list_all is_digit s then Some (digits_value s) else None)"

definition leap_year :: "nat \<Rightarrow> bool" where
  "leap_year y = (y mod 4 = 0 \<and> (y mod 100 \<noteq> 0 \<or> y mod 400 = 0))"

definition days_in_month :: "nat \<Rightarrow> nat \<Rightarrow> nat" where
  "days_in_month y m =
     (if m = 2 then (if leap_year y then 29 else 28)
      else if m \<in> {4, 6, 9, 11} then 30 else 31)"

definition days_from_civil :: "nat \<Rightarrow> nat \<Rightarrow> nat \<Rightarrow> int" where
  "days_from_civil y m d =
     (let y' = (if m \<le> 2 then int y - 1 else int y);
          era = y' div 400;
          yoe = y' - era * 400;
          doy = (153 * (if 2 < m then int m - 3 else int m + 9) + 2) div 5 + int d - 1;
          doe = yoe * 365 + yoe div 4 - yoe div 100 + doy
      in era * 146097 + doe - 719468)"

definition in_ns_range :: "int \<Rightarrow> bool" where
  "in_ns_range n = (- (2 ^ 63) < n \<and> n < 2 ^ 63)"

definition stamp_of_date :: "nat option \<Rightarrow> nat option \<Rightarrow> nat option \<Rightarrow> int option" where
  "stamp_of_date yo mo dd =
     (case (yo, mo, dd) of
        (Some y, Some m, Some d) \<Rightarrow>
          if 1 \<le> m \<and> m \<le> 12 \<and> 1 \<le> d \<and> d \<le> days_in_month y m
             \<and> in_ns_range (days_from_civil y m d * 86400000000000)
          then Some (days_from_civil y m d * 86400000000000) else None
      | _ \<Rightarrow> None)"

datatype date_format = Year_month_day | Month_day_year

fun parse_with :: "date_format \<Rightarrow> string \<Rightarrow> int option" where
  "parse_with Year_month_day s =
     (case split_on CHR ''-'' (strip s) of
        [y, m, d] \<Rightarrow> stamp_of_date (nat_of_digits y) (nat_of_digits m) (nat_of_digits d)
      | _ \<Rightarrow> None)"
| "parse_with Month_day_year s =
     (case split_on CHR ''/'' (strip s) of
        [m, d, y] \<Rightarrow> stamp_of_date (nat_of_digits y) (nat_of_digits m) (nat_of_digits d)
      | _ \<Rightarrow> None)"

definition guess_format :: "string \<Rightarrow> date_format option" where
  "guess_format s =
     (if parse_with Year_month_day s \<noteq> None then Some Year_month_day
      else if parse_with Month_day_year s \<noteq> None then Some Month_day_year
      else None)"

definition parse_date :: "string \<Rightarrow> int option" where
  "parse_date s =
     (case guess_format s of None \<Rightarrow> None | Some f \<Rightarrow> parse_with f s)"

fun datetime_of_obj :: "pyobj option \<Rightarrow> int option" where
  "datetime_of_obj (Some (PyStr s)) = parse_date s"
| "datetime_of_obj x = None"

fun datetime_with :: "date_format \<Rightarrow> pyobj option \<Rightarrow> int option" where
  "datetime_with f (Some (PyStr s)) = parse_with f s"
| "datetime_with f x = None"

fun first_present :: "pyobj option list \<Rightarrow> pyobj option" where
  "first_present [] = None"
| "first_present (None # xs) = first_present xs"
| "first_present (Some x # xs) = Some x"

definition datetimes_of_objs :: "pyobj option list \<Rightarrow> int option list" where
  "datetimes_of_objs xs =
     (case first_present xs of
        Some (PyStr s) \<Rightarrow>
          (case guess_format s of
             Some f \<Rightarrow> map (datetime_with f) xs
           | None \<Rightarrow> map datetime_of_obj xs)
      | _ \<Rightarrow> map datetime_of_obj xs)"

definition truncate :: "rat \<Rightarrow> int" where
  "truncate r = (if 0 \<le> r then \<lfloor>r\<rfloor> else \<lceil>r\<rceil>)"

fun datetime_of_float :: "rat option \<Rightarrow> int option" where
  "datetime_of_float None = None"
| "datetime_of_float (Some r) = (if in_ns_range (truncate r) then Some (truncate r) else None)"

fun to_datetime :: "column \<Rightarrow> column" where
  "to_datetime (Object xs) = Datetime64 (datetimes_of_objs xs)"
| "to_datetime (Float64 xs) = Datetime64 (map datetime_of_float xs)"
| "to_datetime (Boolean xs) = Datetime64 (map (\<lambda>b. None) xs)"
| "to_datetime (Datetime64 xs) = Datetime64 xs"

text \<open>
  \<^verbatim>\<open>df['last_review'] = pd.to_datetime(df['last_review'], errors='coerce')\<close>. With two
  columns of that name the argument is a frame, which \<^verbatim>\<open>to_datetime\<close> cannot
  assemble into dates.
\<close>

definition convert_last_review :: "dataframe \<Rightarrow> error + dataframe" where
  "convert_last_review df =
     (case filter (\<lambda>(n, c). n = ''last_review'') (columns df) of
        [] \<Rightarrow> Inl (KeyError ''last_review'')
      | [(n, c)] \<Rightarrow> Inr (setitem df ''last_review'' (to_datetime c))
      | _ \<Rightarrow> Inl (ValueError ''last_review''))"

text \<open>
  \<^verbatim>\<open>load_data(file_path)\<close>. The \<^verbatim>\<open>st.cache_data\<close> decorator memoises the result by
  path; the function is pure in the file's content, so the model is the function.
\<close>

definition load_data :: "filesystem \<Rightarrow> string \<Rightarrow> error + dataframe" where
  "load_data fs file_path =
     (case read_csv fs file_path of
        Inl e \<Rightarrow> Inl e
      | Inr df \<Rightarrow>
          (case convert_numeric_cols numeric_cols (clean_column_names df) of
             Inl e \<Rightarrow> Inl e
           | Inr df' \<Rightarrow> convert_last_review df'))"

section \<open>Filtering\<close>

text \<open>
  \<^verbatim>\<open>s.unique()\<close>: the distinct values in order of first appearance, NaN included.
  \<^verbatim>\<open>s.isin(values)\<close>: for every row, whether its value is one of the given values
  (NaN is a value like any other here: \<^verbatim>\<open>isin\<close> finds a missing cell when NaN is
  among the values). Values are compared as cells; the script only ever looks for
  values it took from the same column. \<^verbatim>\<open>df[mask]\<close>: a new frame of the rows where
  the mask holds, with their index labels; the mask has one entry per row.
\<close>

fun uniques :: "'a list \<Rightarrow> 'a list \<Rightarrow> 'a list" where
  "uniques seen [] = rev seen"
| "uniques seen (v # vs) = (if v \<in> set seen then uniques seen vs else uniques (v # seen) vs)"

definition unique :: "column \<Rightarrow> cell list" where
  "unique s = uniques [] (cells s)"

definition isin :: "column \<Rightarrow> cell list \<Rightarrow> bool list" where
  "isin s values = map (\<lambda>v. v \<in> set values) (cells s)"

fun select :: "bool list \<Rightarrow> 'a list \<Rightarrow> 'a list" where
  "select (b # bs) (x # xs) = (if b then x # select bs xs else select bs xs)"
| "select bs xs = []"

fun select_column :: "bool list \<Rightarrow> column \<Rightarrow> column" where
  "select_column msk (Float64 xs) = Float64 (select msk xs)"
| "select_column msk (Object xs) = Object (select msk xs)"
| "select_column msk (Boolean xs) = Boolean (select msk xs)"
| "select_column msk (Datetime64 xs) = Datetime64 (select msk xs)"

definition getitem_mask :: "dataframe \<Rightarrow> bool list \<Rightarrow> dataframe" where
  "getitem_mask df msk =
     \<lparr>index = select msk (index df),
      columns = map (\<lambda>(n, c). (n, select_column msk c)) (columns df)\<rparr>"

text \<open>\<^verbatim>\<open>df.empty\<close>: no row, or no column.\<close>

definition empty :: "dataframe \<Rightarrow> bool" where
  "empty df = (index df = [] \<or> columns df = [])"

text \<open>
  \<^verbatim>\<open>st.sidebar.multiselect(label, options=..., default=...)\<close> returns the user's
  selection: the default while the user has not touched the widget, and otherwise the
  values the user picked, which are among the options offered. Streamlit refuses a
  default value that it does not find among the options; the script passes the options
  themselves as the default, and the model takes them to be found (a NaN taken from a
  numeric column, which Python does not find equal to itself, is outside the model).
\<close>

definition multiselect :: "cell list \<Rightarrow> cell list \<Rightarrow> cell list option \<Rightarrow> cell list" where
  "multiselect options dflt picked =
     (case picked of None \<Rightarrow> dflt | Some vs \<Rightarrow> filter (\<lambda>v. v \<in> set options) vs)"

record ui =
  picked_groups :: "cell list option"
  picked_room_types :: "cell list option"

text \<open>
  The two table variables of the script. Lines 56 to 71:
  \<^verbatim>\<open>
  unique_neighbourhood_groups = data['neighbourhood_group'].unique()
  selected_groups = st.sidebar.multiselect(..., options=unique_neighbourhood_groups,
                                           default=unique_neighbourhood_groups)
  filtered_data = data[data['neighbourhood_group'].isin(selected_groups)]
  unique_room_types = filtered_data['room_type'].unique()
  selected_room_types = st.sidebar.multiselect(..., options=unique_room_types,
                                               default=unique_room_types)
  filtered_data = filtered_data[filtered_data['room_type'].isin(selected_room_types)]
  \<close>
\<close>

record vars =
  data :: dataframe
  filtered_data :: "dataframe option"

definition unique_neighbourhood_groups :: "dataframe \<Rightarrow> error + cell list" where
  "unique_neighbourhood_groups d =
     (case getitem d ''neighbourhood_group'' of Inl e \<Rightarrow> Inl e | Inr s \<Rightarrow> Inr (unique s))"

text \<open>\<^verbatim>\<open>df[df[col].isin(values)]\<close>\<close>

definition filter_isin :: "dataframe \<Rightarrow> string \<Rightarrow> cell list \<Rightarrow> error + dataframe" where
  "filter_isin df col values =
     (case getitem df col of
        Inl e \<Rightarrow> Inl e
      | Inr s \<Rightarrow> Inr (getitem_mask df (isin s values)))"

definition filter_groups :: "vars \<Rightarrow> cell list option \<Rightarrow> error + vars" where
  "filter_groups v picked =
     (case unique_neighbourhood_groups (data v) of
        Inl e \<Rightarrow> Inl e
      | Inr opts \<Rightarrow>
          (case filter_isin (data v) ''neighbourhood_group'' (multiselect opts opts picked) of
             Inl e \<Rightarrow> Inl e
           | Inr f \<Rightarrow> Inr (v\<lparr>filtered_data := Some f\<rparr>)))"

definition unique_room_types :: "vars \<Rightarrow> error + cell list" where
  "unique_room_types v =
     (case filtered_data v of
        None \<Rightarrow> Inl (KeyError ''filtered_data'')
      | Some f \<Rightarrow>
          (case getitem f ''room_type'' of Inl e \<Rightarrow> Inl e | Inr s \<Rightarrow> Inr (unique s)))"

definition filter_room_types :: "vars \<Rightarrow> cell list option \<Rightarrow> error + vars" where
  "filter_room_types v picked =
     (case unique_room_types v of
        Inl e \<Rightarrow> Inl e
      | Inr opts \<Rightarrow>
          (case filtered_data v of
             None \<Rightarrow> Inl (KeyError ''filtered_data'')
           | Some f \<Rightarrow>
               (case filter_isin f ''room_type'' (multiselect opts opts picked) of
                  Inl e \<Rightarrow> Inl e
                | Inr f' \<Rightarrow> Inr (v\<lparr>filtered_data := Some f'\<rparr>))))"

definition filter_stage :: "vars \<Rightarrow> ui \<Rightarrow> error + vars" where
  "filter_stage v u =
     (case filter_groups v (picked_groups u) of
        Inl e \<Rightarrow> Inl e
      | Inr v1 \<Rightarrow> filter_room_types v1 (picked_room_types u))"

section \<open>Aggregates\<close>

text \<open>
  A frame is well formed when every column has one cell per index label, as every frame
  pandas builds has.
\<close>

definition wf_frame :: "dataframe \<Rightarrow> bool" where
  "wf_frame df = list_all (\<lambda>(n, c). length (cells c) = length (index df)) (columns df)"

text \<open>
  \<^verbatim>\<open>groupby\<close> sorts the group keys. Keys of one kind are compared as Python compares
  them (text by code points); where text is mixed with other values, the others come
  first. Booleans count as 0 and 1.
\<close>

fun str_le :: "string \<Rightarrow> string \<Rightarrow> bool" where
  "str_le [] b = True"
| "str_le (x # a) [] = False"
| "str_le (x # a) (y # b) =
     ((of_char x :: nat) < of_char y \<or> ((of_char x :: nat) = of_char y \<and> str_le a b))"

fun num_key :: "cell \<Rightarrow> rat" where
  "num_key (Num r) = r"
| "num_key (Flag b) = (if b then 1 else 0)"
| "num_key (Stamp t) = of_int t"
| "num_key c = 0"

fun cell_le :: "cell \<Rightarrow> cell \<Rightarrow> bool" where
  "cell_le (Str a) (Str b) = str_le a b"
| "cell_le (Str a) c = False"
| "cell_le c (Str b) = True"
| "cell_le c d = (num_key c \<le> num_key d)"

fun key_le :: "cell list \<Rightarrow> cell list \<Rightarrow> bool" where
  "key_le [] b = True"
| "key_le (x # a) [] = False"
| "key_le (x # a) (y # b) = (if x = y then key_le a b else cell_le x y)"

fun insort_by :: "('a \<Rightarrow> 'a \<Rightarrow> bool) \<Rightarrow> 'a \<Rightarrow> 'a list \<Rightarrow> 'a list" where
  "insort_by le x [] = [x]"
| "insort_by le x (y # ys) = (if le x y then x # y # ys else y # insort_by le x ys)"

definition sort_by :: "('a \<Rightarrow> 'a \<Rightarrow> bool) \<Rightarrow> 'a list \<Rightarrow> 'a list" where
  "sort_by le xs = foldr (insort_by le) xs []"

text \<open>The key columns of a \<^verbatim>\<open>groupby\<close>, and the key of every row.\<close>

fun getitems :: "dataframe \<Rightarrow> string list \<Rightarrow> error + cell list list" where
  "getitems df [] = Inr []"
| "getitems df (col # cols) =
     (case filter (\<lambda>(n, c). n = col) (columns df) of
        [] \<Rightarrow> Inl (KeyError col)
      | [(n, c)] \<Rightarrow>
          (case getitems df cols of Inl e \<Rightarrow> Inl e | Inr ks \<Rightarrow> Inr (cells c # ks))
      | _ \<Rightarrow> Inl (ValueError col))"

definition row_keys :: "dataframe \<Rightarrow> cell list list \<Rightarrow> cell list list" where
  "row_keys df ks = map (\<lambda>i. map (\<lambda>k. k ! i) ks) [0..<length (index df)]"

text \<open>
  \<^verbatim>\<open>df.groupby(cols).size()\<close>: the sorted distinct keys, each with the number of rows
  that have it. A row with a missing key belongs to no group (\<^verbatim>\<open>dropna=True\<close> is the
  default of \<^verbatim>\<open>groupby\<close>).
\<close>

definition groupby_size :: "dataframe \<Rightarrow> string list \<Rightarrow> error + (cell list \<times> nat) list" where
  "groupby_size df cols =
     (case getitems df cols of
        Inl e \<Rightarrow> Inl e
      | Inr ks \<Rightarrow>
          let keyed = filter (\<lambda>k. NaN \<notin> set k) (row_keys df ks)
          in Inr (map (\<lambda>k. (k, count_list keyed k)) (sort_by key_le (uniques [] keyed))))"

text \<open>
  \<^verbatim>\<open>s.value_counts()\<close>: the distinct values that are not missing, each with its number
  of rows, the most frequent first (ties in order of first appearance).
\<close>

definition value_counts :: "column \<Rightarrow> (cell \<times> nat) list" where
  "value_counts s =
     (let present = filter (\<lambda>v. v \<noteq> NaN) (cells s)
      in sort_by (\<lambda>a b. snd b \<le> snd a) (map (\<lambda>v. (v, count_list present v)) (uniques [] present)))"

text \<open>
  \<^verbatim>\<open>df.groupby(key)[val].mean()\<close>: for every sorted distinct key, the mean of the
  values of its rows that are not missing, or NaN when all of them are missing. The
  mean of text is a \<^verbatim>\<open>TypeError\<close>.
\<close>

fun numbers :: "column \<Rightarrow> error + rat option list" where
  "numbers (Float64 xs) = Inr xs"
| "numbers (Boolean xs) = Inr (map (\<lambda>b. Some (if b then 1 else 0)) xs)"
| "numbers (Datetime64 xs) = Inr (map (map_option of_int) xs)"
| "numbers (Object xs) = Inl TypeError"

fun present :: "rat option list \<Rightarrow> rat list" where
  "present [] = []"
| "present (None # xs) = present xs"
| "present (Some r # xs) = r # present xs"

definition mean :: "rat option list \<Rightarrow> cell" where
  "mean xs =
     (let p = present xs
      in if p = [] then NaN else Num (sum_list p / of_nat (length p)))"

definition groupby_mean :: "dataframe \<Rightarrow> string \<Rightarrow> string \<Rightarrow> error + (cell \<times> cell) list" where
  "groupby_mean df key val =
     (case getitem df key of
        Inl e \<Rightarrow> Inl e
      | Inr k \<Rightarrow>
          (case getitem df val of
             Inl e \<Rightarrow> Inl e
           | Inr s \<Rightarrow>
               (case numbers s of
                  Inl e \<Rightarrow> Inl e
                | Inr xs \<Rightarrow>
                    Inr (map (\<lambda>g. (g, mean (map snd (filter (\<lambda>(k', x). k' = g) (zip (cells k) xs)))))
                          (sort_by cell_le (uniques [] (filter (\<lambda>v. v \<noteq> NaN) (cells k))))))))"

text \<open>\<^verbatim>\<open>df.dropna(subset=[col])\<close>: a new frame without the rows whose \<open>col\<close> is missing.\<close>

definition dropna :: "dataframe \<Rightarrow> string \<Rightarrow> error + dataframe" where
  "dropna df col =
     (case getitem df col of
        Inl e \<Rightarrow> Inl (KeyError col)
      | Inr s \<Rightarrow> Inr (getitem_mask df (map (\<lambda>v. v \<noteq> NaN) (cells s))))"

section \<open>Charts\<close>

text \<open>
  A chart is what a plotly call is given: its kind, its title and, for every channel
  (\<^verbatim>\<open>x\<close>, \<^verbatim>\<open>y\<close>, \<^verbatim>\<open>color\<close>, \<^verbatim>\<open>size\<close>, \<^verbatim>\<open>hover_name\<close>, ...), the values of the
  column the call names for it. A plotly express call raises \<^verbatim>\<open>ValueError\<close> when a
  name it is given is not (exactly one) column of its table. What plotly then does
  with the values (it refuses a negative size, and leaves out of the figure a point
  whose colour is missing) is outside the model: a chart here is the call's arguments.
\<close>

type_synonym table = "(string \<times> cell list) list"

record chart =
  kind :: string
  title :: string
  channels :: "(string \<times> cell list) list"

definition to_table :: "dataframe \<Rightarrow> table" where
  "to_table df = map (\<lambda>(n, c). (n, cells c)) (columns df)"

fun encode :: "table \<Rightarrow> (string \<times> string) list \<Rightarrow> error + (string \<times> cell list) list" where
  "encode t [] = Inr []"
| "encode t ((channel, col) # es) =
     (case filter (\<lambda>(n, vs). n = col) t of
        [(n, vs)] \<Rightarrow>
          (case encode t es of Inl e \<Rightarrow> Inl e | Inr r \<Rightarrow> Inr ((channel, vs) # r))
      | _ \<Rightarrow> Inl (ValueError col))"

definition px :: "string \<Rightarrow> table \<Rightarrow> (string \<times> string) list \<Rightarrow> string \<Rightarrow> error + chart" where
  "px k t enc ttl =
     (case encode t enc of
        Inl e \<Rightarrow> Inl e
      | Inr chs \<Rightarrow> Inr \<lparr>kind = k, title = ttl, channels = chs\<rparr>)"

text \<open>
  \<^verbatim>\<open>
  fig_bar = px.bar(
      filtered_data.groupby(['neighbourhood_group', 'room_type']).size().reset_index(name='count'),
      x='neighbourhood_group', y='count', color='room_type', ...)
  \<close>
\<close>

definition group_room_counts :: "dataframe \<Rightarrow> error + (cell list \<times> nat) list" where
  "group_room_counts d = groupby_size d [''neighbourhood_group'', ''room_type'']"

definition fig_bar :: "dataframe \<Rightarrow> error + chart" where
  "fig_bar d =
     (case group_room_counts d of
        Inl e \<Rightarrow> Inl e
      | Inr g \<Rightarrow>
          px ''bar''
            [(''neighbourhood_group'', map (\<lambda>(k, n). k ! 0) g),
             (''room_type'', map (\<lambda>(k, n). k ! 1) g),
             (''count'', map (\<lambda>(k, n). Num (of_nat n)) g)]
            [(''x'', ''neighbourhood_group''), (''y'', ''count''), (''color'', ''room_type'')]
            ''Count of Room Types by Neighbourhood Group'')"

text \<open>
  \<^verbatim>\<open>
  room_type_counts = filtered_data['room_type'].value_counts().reset_index()
  room_type_counts.columns = ['room_type', 'count']
  fig_pie_room_type = px.pie(room_type_counts, values='count', names='room_type', ..., hole=0.4)
  \<close>
  and the same for \<^verbatim>\<open>instant_bookable\<close>.
\<close>

definition counts_table :: "dataframe \<Rightarrow> string \<Rightarrow> error + table" where
  "counts_table d col =
     (case getitem d col of
        Inl e \<Rightarrow> Inl e
      | Inr s \<Rightarrow>
          Inr [(col, map fst (value_counts s)),
               (''count'', map (\<lambda>(v, n). Num (of_nat n)) (value_counts s))])"

definition room_type_counts :: "dataframe \<Rightarrow> error + table" where
  "room_type_counts d = counts_table d ''room_type''"

definition fig_pie_room_type :: "dataframe \<Rightarrow> error + chart" where
  "fig_pie_room_type d =
     (case room_type_counts d of
        Inl e \<Rightarrow> Inl e
      | Inr t \<Rightarrow>
          px ''pie'' t [(''values'', ''count''), (''names'', ''room_type'')]
            ''Distribution of Room Types'')"

definition fig_pie_instant :: "dataframe \<Rightarrow> error + chart" where
  "fig_pie_instant d =
     (case counts_table d ''instant_bookable'' of
        Inl e \<Rightarrow> Inl e
      | Inr t \<Rightarrow>
          px ''pie'' t [(''values'', ''count''), (''names'', ''instant_bookable'')]
            ''Listings by Instant Bookability'')"

text \<open>
  \<^verbatim>\<open>
  fig_pie_group = go.Figure(data=[go.Pie(labels=neighbourhood_counts['neighbourhood_group'],
      values=neighbourhood_counts['count'], pull=[0.1] * len(neighbourhood_counts), hole=0.3)])
  \<close>
\<close>

definition fig_pie_group :: "dataframe \<Rightarrow> error + chart" where
  "fig_pie_group d =
     (case getitem d ''neighbourhood_group'' of
        Inl e \<Rightarrow> Inl e
      | Inr s \<Rightarrow>
          Inr \<lparr>kind = ''pie'', title = ''Distribution of Neighbourhood Groups'',
               channels =
                 [(''labels'', map fst (value_counts s)),
                  (''values'', map (\<lambda>(v, n). Num (of_nat n)) (value_counts s)),
                  (''pull'', map (\<lambda>x. Num (1 / 10)) (value_counts s))]\<rparr>)"

text \<open>
  The share of a slice, as a pie chart shows it: its value as a percentage of the sum
  of the values.
\<close>

definition pie_percentages :: "nat list \<Rightarrow> rat list" where
  "pie_percentages counts = map (\<lambda>n. 100 * of_nat n / of_nat (sum_list counts)) counts"

text \<open>
  \<^verbatim>\<open>
  avg_reviews_by_group = filtered_data.groupby('neighbourhood_group')['reviews_per_month'].mean().reset_index()
  fig_avg_reviews = px.bar(avg_reviews_by_group, x='neighbourhood_group', y='reviews_per_month',
                           color='reviews_per_month', ...)
  \<close>
\<close>

definition avg_reviews_by_group :: "dataframe \<Rightarrow> error + (cell \<times> cell) list" where
  "avg_reviews_by_group d = groupby_mean d ''neighbourhood_group'' ''reviews_per_month''"

definition fig_avg_reviews :: "dataframe \<Rightarrow> error + chart" where
  "fig_avg_reviews d =
     (case avg_reviews_by_group d of
        Inl e \<Rightarrow> Inl e
      | Inr g \<Rightarrow>
          px ''bar''
            [(''neighbourhood_group'', map fst g), (''reviews_per_month'', map snd g)]
            [(''x'', ''neighbourhood_group''), (''y'', ''reviews_per_month''),
             (''color'', ''reviews_per_month'')]
            ''Average Reviews Per Month by Neighbourhood Group'')"

text \<open>
  \<^verbatim>\<open>
  fig_bubble = px.scatter(filtered_data.dropna(subset=['reviews_per_month']),
      x='minimum_nights', y='price', size='reviews_per_month', color='room_type',
      hover_name='NAME', ...)
  \<close>
\<close>

definition bubble_data :: "dataframe \<Rightarrow> error + dataframe" where
  "bubble_data d = dropna d ''reviews_per_month''"

definition fig_bubble :: "dataframe \<Rightarrow> error + chart" where
  "fig_bubble d =
     (case bubble_data d of
        Inl e \<Rightarrow> Inl e
      | Inr b \<Rightarrow>
          px ''scatter'' (to_table b)
            [(''x'', ''minimum_nights''), (''y'', ''price''), (''size'', ''reviews_per_month''),
             (''color'', ''room_type''), (''hover_name'', ''NAME'')]
            ''Price vs. Minimum Nights (Bubble Size by Reviews/Month)'')"

text \<open>
  \<^verbatim>\<open>
  fig_scatter = px.scatter(filtered_data, x='availability_365', y='price', color='room_type',
                           hover_name='NAME', ...)
  \<close>
\<close>

definition fig_scatter :: "dataframe \<Rightarrow> error + chart" where
  "fig_scatter d =
     px ''scatter'' (to_table d)
       [(''x'', ''availability_365''), (''y'', ''price''), (''color'', ''room_type''),
        (''hover_name'', ''NAME'')]
       ''Price vs. Availability 365 (Color by Room Type)''"

text \<open>
  \<^verbatim>\<open>
  fig_box = px.box(filtered_data, x='neighbourhood_group', y='minimum_nights',
                   color='neighbourhood_group', ...)
  \<close>
\<close>

definition fig_box :: "dataframe \<Rightarrow> error + chart" where
  "fig_box d =
     px ''box'' (to_table d)
       [(''x'', ''neighbourhood_group''), (''y'', ''minimum_nights''),
        (''color'', ''neighbourhood_group'')]
       ''Minimum Nights per Neighbourhood Group''"

text \<open>
  \<^verbatim>\<open>
  numeric_df = filtered_data[numeric_cols].corr()
  fig_heatmap = px.imshow(numeric_df, text_auto=".2f", ...)
  \<close>
  The correlation coefficients are floating-point results (they need a square root)
  and are not computed here: the chart carries the six columns they are computed from.
\<close>

definition fig_heatmap :: "dataframe \<Rightarrow> error + chart" where
  "fig_heatmap d =
     (case getitems d numeric_cols of
        Inl e \<Rightarrow> Inl e
      | Inr ks \<Rightarrow>
          Inr \<lparr>kind = ''imshow'', title = ''Correlation Heatmap of Numeric Features'',
               channels = zip numeric_cols ks\<rparr>)"

section \<open>The script\<close>

text \<open>
  What a run of the script shows is the sequence of its Streamlit calls. A run ends
  when the script reaches its last line, when it calls \<^verbatim>\<open>st.stop()\<close>, or when an
  exception that it does not catch is raised.
\<close>

datatype event =
    Set_page_config
  | Success string
  | Error string
  | Warning string
  | Sidebar_header string
  | Sidebar_multiselect string "cell list" "cell list"
  | Title string
  | Markdown string
  | Header string
  | Subheader string
  | Columns nat
  | Plotly_chart chart

datatype ending = Finished | Stopped | Raised error

datatype step = Emit event | Build "dataframe \<Rightarrow> error + chart"

fun run_steps :: "step list \<Rightarrow> dataframe \<Rightarrow> event list \<Rightarrow> event list \<times> ending" where
  "run_steps [] d out = (out, Finished)"
| "run_steps (Emit e # ss) d out = run_steps ss d (out @ [e])"
| "run_steps (Build b # ss) d out =
     (case b d of
        Inl e \<Rightarrow> (out, Raised e)
      | Inr c \<Rightarrow> run_steps ss d (out @ [Plotly_chart c]))"

text \<open>Lines 81 to 215: the three sections of the dashboard.\<close>

definition chart_steps :: "step list" where
  "chart_steps =
     [Emit (Header ''1. Listing Distributions''),
      Emit (Columns 2),
      Emit (Subheader ''Room Type Distribution by Neighbourhood Group''),
      Build fig_bar,
      Emit (Subheader ''Percentage Distribution of Room Types''),
      Build fig_pie_room_type,
      Emit (Columns 2),
      Emit (Subheader ''Distribution of Neighbourhood Groups (Exploding Pie)''),
      Build fig_pie_group,
      Emit (Subheader ''Instant Bookable Listings''),
      Build fig_pie_instant,
      Emit (Markdown ''---''),
      Emit (Header ''2. Price and Review Analysis''),
      Emit (Columns 2),
      Emit (Subheader ''Average Reviews per Month''),
      Build fig_avg_reviews,
      Emit (Subheader ''Price vs. Minimum Nights (Bubble Plot)''),
      Build fig_bubble,
      Emit (Subheader ''Price vs. Availability (Color by Room Type)''),
      Build fig_scatter,
      Emit (Markdown ''---''),
      Emit (Header ''3. Advanced Visualizations''),
      Emit (Columns 2),
      Emit (Subheader ''Minimum Nights per Neighbourhood Group''),
      Build fig_box,
      Emit (Subheader ''Correlation Heatmap''),
      Build fig_heatmap]"

definition not_found_message :: string where
  "not_found_message =
     ''Error: The file `airbnb_project_cleaned.csv` was not found. Please make sure it's in the same directory.''"

definition no_data_message :: string where
  "no_data_message = ''No data matches the selected filters. Please adjust your selections.''"

text \<open>Lines 52 to 79: the sidebar, the two filters, the title and the empty-result stop.\<close>

definition dashboard :: "vars \<Rightarrow> ui \<Rightarrow> event list \<Rightarrow> event list \<times> ending" where
  "dashboard v u out =
     (let out1 = out @ [Sidebar_header ''Filter Options''] in
      case unique_neighbourhood_groups (data v) of
        Inl e \<Rightarrow> (out1, Raised e)
      | Inr groups \<Rightarrow>
          let out2 = out1 @ [Sidebar_multiselect ''Select Neighbourhood Group(s)'' groups groups] in
          (case filter_groups v (picked_groups u) of
             Inl e \<Rightarrow> (out2, Raised e)
           | Inr v1 \<Rightarrow>
               (case unique_room_types v1 of
                  Inl e \<Rightarrow> (out2, Raised e)
                | Inr rooms \<Rightarrow>
                    let out3 = out2 @ [Sidebar_multiselect ''Select Room Type(s)'' rooms rooms] in
                    (case filter_room_types v1 (picked_room_types u) of
                       Inl e \<Rightarrow> (out3, Raised e)
                     | Inr v2 \<Rightarrow>
                         let out4 = out3 @
                           [Title ''Airbnb Listings Dashboard'',
                            Markdown ''Explore key metrics and distributions of Airbnb listings using this interactive dashboard.'']
                         in (case filtered_data v2 of
                               None \<Rightarrow> (out4, Raised (KeyError ''filtered_data''))
                             | Some f \<Rightarrow>
                                 if empty f then (out4 @ [Warning no_data_message], Stopped)
                                 else run_steps chart_steps f out4)))))"

text \<open>
  Lines 17 to 50:
  \<^verbatim>\<open>
  try:
      data = load_data('airbnb_project_cleaned.csv')
      st.success("Data loaded successfully!")
  except FileNotFoundError:
      st.error("Error: The file ... was not found. ...")
      st.stop()
  \<close>
\<close>

definition main :: "filesystem \<Rightarrow> ui \<Rightarrow> event list \<times> ending" where
  "main fs u =
     (case load_data fs ''airbnb_project_cleaned.csv'' of
        Inl e \<Rightarrow>
          if e = FileNotFoundError then ([Set_page_config, Error not_found_message], Stopped)
          else ([Set_page_config], Raised e)
      | Inr d \<Rightarrow>
          dashboard \<lparr>data = d, filtered_data = None\<rparr> u
            [Set_page_config, Success ''Data loaded successfully!''])"

section \<open>Notions the properties are stated with\<close>

text \<open>
  The rows of a frame, in order: the index label of each row with its cells, one per
  column.
\<close>

definition row :: "dataframe \<Rightarrow> nat \<Rightarrow> nat \<times> cell list" where
  "row df i = (index df ! i, map (\<lambda>(n, c). cells c ! i) (columns df))"

definition rows :: "dataframe \<Rightarrow> (nat \<times> cell list) list" where
  "rows df = map (row df) [0..<length (index df)]"

text \<open>
  Currency-formatted text: a text that, once every \<^verbatim>\<open>$\<close> and \<^verbatim>\<open>,\<close> is taken out, is a
  decimal numeral with integer digits \<open>i\<close> and fraction digits \<open>f\<close>, as
  \<^verbatim>\<open>$1,200.50\<close> is with \<open>i\<close> = 1200 and \<open>f\<close> = 50. The number it denotes is
  \<open>decimal_value i f\<close>.
\<close>

definition unformatted :: "string \<Rightarrow> string" where
  "unformatted s = filter (\<lambda>c. c \<noteq> CHR ''$'' \<and> c \<noteq> CHR '','') s"

definition decimal_value :: "string \<Rightarrow> string \<Rightarrow> rat" where
  "decimal_value i f = of_nat (digits_value i) + of_nat (digits_value f) / 10 ^ length f"

definition currency_text :: "string \<Rightarrow> string \<Rightarrow> string \<Rightarrow> bool" where
  "currency_text s i f =
     (i \<noteq> [] \<and> list_all is_digit i \<and> list_all is_digit f \<and>
      unformatted s = (if f = [] then i else i @ CHR ''.'' # f))"

fun currency_cell :: "pyobj option \<Rightarrow> bool" where
  "currency_cell None = True"
| "currency_cell (Some (PyStr s)) = (\<exists>i f. currency_text s i f)"
| "currency_cell (Some (PyBool b)) = False"

text \<open>The two replacements of the loop body on one cell.\<close>

definition strip_currency :: "pyobj option \<Rightarrow> pyobj option" where
  "strip_currency x = str_replace_cell CHR '','' [] (str_replace_cell CHR ''$'' [] x)"

text \<open>A column of \<^verbatim>\<open>load_data\<close> is converted when one more pass leaves it as it is.\<close>

definition converted :: "dataframe \<Rightarrow> string \<Rightarrow> bool" where
  "converted df c = (\<exists>s. getitem df c = Inr s \<and> convert_column s = Inr s)"

text \<open>
  A numeric column of a frame can be converted when it is there, once, and, if it is
  text, holds only currency-formatted text and missing cells.
\<close>

definition convertible :: "dataframe \<Rightarrow> string \<Rightarrow> bool" where
  "convertible df c =
     (\<exists>s. getitem df c = Inr s \<and> (case s of Object xs \<Rightarrow> list_all currency_cell xs | _ \<Rightarrow> True))"

text \<open>
  The script's variables \<^verbatim>\<open>selected_groups\<close> and \<^verbatim>\<open>selected_room_types\<close>: what the two
  widgets return, the second in the state the group filter leaves.
\<close>

definition selected_groups :: "vars \<Rightarrow> ui \<Rightarrow> error + cell list" where
  "selected_groups v u =
     (case unique_neighbourhood_groups (data v) of
        Inl e \<Rightarrow> Inl e
      | Inr opts \<Rightarrow> Inr (multiselect opts opts (picked_groups u)))"

definition selected_room_types :: "vars \<Rightarrow> ui \<Rightarrow> error + cell list" where
  "selected_room_types v1 u =
     (case unique_room_types v1 of
        Inl e \<Rightarrow> Inl e
      | Inr opts \<Rightarrow> Inr (multiselect opts opts (picked_room_types u)))"

text \<open>The charts among the events of a run.\<close>

fun is_chart :: "event \<Rightarrow> bool" where
  "is_chart (Plotly_chart c) = True"
| "is_chart e = False"

section \<open>A sample file\<close>

text \<open>
  Four listings under the header of the data set the script is written for. Listing 1
  has no \<^verbatim>\<open>reviews per month\<close>, listing 3 has no \<^verbatim>\<open>room type\<close>.
\<close>

definition sample_csv :: dataframe where
  "sample_csv =
     \<lparr>index = [0, 1, 2, 3],
      columns =
        [(''NAME'', Object [Some (PyStr ''Loft''), Some (PyStr ''Studio''), Some (PyStr ''Den''), Some (PyStr ''Nook'')]),
         (''neighbourhood group'', Object [Some (PyStr ''Manhattan''), Some (PyStr ''Brooklyn''), Some (PyStr ''Manhattan''), Some (PyStr ''Brooklyn'')]),
         (''room type'', Object [Some (PyStr ''Entire home/apt''), Some (PyStr ''Private room''), Some (PyStr ''Private room''), None]),
         (''price'', Object [Some (PyStr ''$1,200.50''), Some (PyStr ''$80''), Some (PyStr ''$2,000''), Some (PyStr ''$95'')]),
         (''service fee'', Object [Some (PyStr ''$240''), Some (PyStr ''$16''), None, Some (PyStr ''$19'')]),
         (''minimum nights'', Float64 [Some 3, Some 1, Some 30, Some 2]),
         (''number of reviews'', Float64 [Some 10, Some 0, Some 4, Some 7]),
         (''last review'', Object [Some (PyStr ''10/19/2021''), None, Some (PyStr ''7/5/2019''), Some (PyStr ''soon'')]),
         (''reviews per month'', Float64 [Some (1 / 2), None, Some 1, Some 2]),
         (''availability 365'', Float64 [Some 365, Some 0, Some 120, Some 30]),
         (''instant_bookable'', Boolean [True, False, False, True])]\<rparr>"

definition sample_data :: dataframe where
  "sample_data =
     \<lparr>index = [0, 1, 2, 3],
      columns =
        [(''NAME'', Object [Some (PyStr ''Loft''), Some (PyStr ''Studio''), Some (PyStr ''Den''), Some (PyStr ''Nook'')]),
         (''neighbourhood_group'', Object [Some (PyStr ''Manhattan''), Some (PyStr ''Brooklyn''), Some (PyStr ''Manhattan''), Some (PyStr ''Brooklyn'')]),
         (''room_type'', Object [Some (PyStr ''Entire home/apt''), Some (PyStr ''Private room''), Some (PyStr ''Private room''), None]),
         (''price'', Float64 [Some (2401 / 2), Some 80, Some 2000, Some 95]),
         (''service_fee'', Float64 [Some 240, Some 16, None, Some 19]),
         (''minimum_nights'', Float64 [Some 3, Some 1, Some 30, Some 2]),
         (''number_of_reviews'', Float64 [Some 10, Some 0, Some 4, Some 7]),
         (''last_review'', Datetime64 [Some 1634601600000000000, None, Some 1562284800000000000, None]),
         (''reviews_per_month'', Float64 [Some (1 / 2), None, Some 1, Some 2]),
         (''availability_365'', Float64 [Some 365, Some 0, Some 120, Some 30]),
         (''instant_bookable'', Boolean [True, False, False, True])]\<rparr>"

definition sample_fs :: filesystem where
  "sample_fs p = (if p = ''airbnb_project_cleaned.csv'' then Some sample_csv else None)"

text \<open>The same file with one price that is no number.\<close>

definition typo_csv :: dataframe where
  "typo_csv =
     setitem sample_csv ''price''
       (Object [Some (PyStr ''$1,200.50''), Some (PyStr ''$80''), Some (PyStr ''ask host''), Some (PyStr ''$95'')])"

definition typo_fs :: filesystem where
  "typo_fs p = (if p = ''airbnb_project_cleaned.csv'' then Some typo_csv else None)"

text \<open>
  The sample file with the prices \<^verbatim>\<open>$2,000\<close>, \<^verbatim>\<open>$80\<close>, \<^verbatim>\<open>ask host\<close> and
  \<^verbatim>\<open>$95\<close>: currency-formatted text in a column with one text that is no number.
\<close>

definition mixed_prices :: column where
  "mixed_prices =
     Object [Some (PyStr ''$2,000''), Some (PyStr ''$80''), Some (PyStr ''ask host''), Some (PyStr ''$95'')]"

definition mixed_csv :: dataframe where
  "mixed_csv = setitem sample_csv ''price'' mixed_prices"

definition mixed_fs :: filesystem where
  "mixed_fs p = (if p = ''airbnb_project_cleaned.csv'' then Some mixed_csv else None)"

text \<open>The sample with its listing titles under the name \<^verbatim>\<open>name\<close>.\<close>

definition renamed_data :: dataframe where
  "renamed_data =
     sample_data\<lparr>columns := map (\<lambda>(n, c). (if n = ''NAME'' then ''name'' else n, c)) (columns sample_data)\<rparr>"

text \<open>The two Brooklyn listings of the sample, and the choice that selects them.\<close>

definition brooklyn_data :: dataframe where
  "brooklyn_data =
     \<lparr>index = [1, 3],
      columns =
        [(''NAME'', Object [Some (PyStr ''Studio''), Some (PyStr ''Nook'')]),
         (''neighbourhood_group'', Object [Some (PyStr ''Brooklyn''), Some (PyStr ''Brooklyn'')]),
         (''room_type'', Object [Some (PyStr ''Private room''), None]),
         (''price'', Float64 [Some 80, Some 95]),
         (''service_fee'', Float64 [Some 16, Some 19]),
         (''minimum_nights'', Float64 [Some 1, Some 2]),
         (''number_of_reviews'', Float64 [Some 0, Some 7]),
         (''last_review'', Datetime64 [None, None]),
         (''reviews_per_month'', Float64 [None, Some 2]),
         (''availability_365'', Float64 [Some 0, Some 30]),
         (''instant_bookable'', Boolean [False, True])]\<rparr>"

definition brooklyn_only :: ui where
  "brooklyn_only = \<lparr>picked_groups = Some [Str ''Brooklyn''], picked_room_types = None\<rparr>"

definition nothing_picked :: ui where
  "nothing_picked = \<lparr>picked_groups = Some [], picked_room_types = None\<rparr>"

text \<open>The two Manhattan listings of the sample.\<close>

definition manhattan_data :: dataframe where
  "manhattan_data =
     \<lparr>index = [0, 2],
      columns =
        [(''NAME'', Object [Some (PyStr ''Loft''), Some (PyStr ''Den'')]),
         (''neighbourhood_group'', Object [Some (PyStr ''Manhattan''), Some (PyStr ''Manhattan'')]),
         (''room_type'', Object [Some (PyStr ''Entire home/apt''), Some (PyStr ''Private room'')]),
         (''price'', Float64 [Some (2401 / 2), Some 2000]),
         (''service_fee'', Float64 [Some 240, None]),
         (''minimum_nights'', Float64 [Some 3, Some 30]),
         (''number_of_reviews'', Float64 [Some 10, Some 4]),
         (''last_review'', Datetime64 [Some 1634601600000000000, Some 1562284800000000000]),
         (''reviews_per_month'', Float64 [Some (1 / 2), Some 1]),
         (''availability_365'', Float64 [Some 365, Some 120]),
         (''instant_bookable'', Boolean [True, False])]\<rparr>"

definition manhattan_only :: ui where
  "manhattan_only = \<lparr>picked_groups = Some [Str ''Manhattan''], picked_room_types = None\<rparr>"

definition untouched :: ui where
  "untouched = \<lparr>picked_groups = None, picked_room_types = None\<rparr>"

section \<open>Evaluating the model\<close>

lemmas text_defs = py_float_def strip_def is_space_def lower_def is_digit_def digit_val_def
  exponent_def scale_def replace_def

lemmas date_defs = parse_date_def guess_format_def datetimes_of_objs_def truncate_def
  stamp_of_date_def nat_of_digits_def digits_value_def
  days_in_month_def leap_year_def days_from_civil_def in_ns_range_def

lemmas load_defs = load_data_def read_csv_def clean_column_names_def numeric_cols_def
  getitem_def setitem_def convert_column_def convert_last_review_def

lemma load_sample: "load_data sample_fs ''airbnb_project_cleaned.csv'' = Inr sample_data"
  by (simp add: sample_fs_def sample_csv_def sample_data_def load_defs text_defs date_defs Let_def)

lemma load_typo: "load_data typo_fs ''airbnb_project_cleaned.csv'' = Inl (ValueError ''ask host'')"
  by (simp add: typo_fs_def typo_csv_def sample_csv_def load_defs text_defs)

section \<open>The loader\<close>

subsection \<open>Reading decimal numerals\<close>

lemma replace_empty: "replace a [] s = filter (\<lambda>c. c \<noteq> a) s"
  by (induction s) (simp_all add: replace_def)

lemma replace_unformatted: "replace CHR '','' [] (replace CHR ''$'' [] s) = unformatted s"
  by (simp add: replace_empty unformatted_def conj_commute)

lemma digitpart_digits:
  "list_all is_digit ds \<Longrightarrow>
   digitpart v k (ds @ rest) =
   digitpart (foldl (\<lambda>v c. 10 * v + digit_val c) v ds) (k + length ds) rest"
  by (induction ds arbitrary: v k) simp_all

lemma digitpart_all:
  "list_all is_digit ds \<Longrightarrow> digitpart 0 0 ds = (digits_value ds, length ds, [])"
  using digitpart_digits [of ds 0 0 "[]"] by (simp add: digits_value_def)

lemma digitpart_point:
  "list_all is_digit ds \<Longrightarrow>
   digitpart 0 0 (ds @ CHR ''.'' # f) = (digits_value ds, length ds, CHR ''.'' # f)"
  using digitpart_digits [of ds 0 0 "CHR ''.'' # f"]
  by (simp add: digits_value_def is_digit_def)

lemma digit_not_space: "is_digit c \<Longrightarrow> \<not> is_space c"
  by (auto simp: is_digit_def is_space_def)

lemma dropWhile_hd: "xs \<noteq> [] \<Longrightarrow> \<not> P (hd xs) \<Longrightarrow> dropWhile P xs = xs"
  by (cases xs) simp_all

lemma strip_id:
  assumes "t \<noteq> []" "\<not> is_space (hd t)" "\<not> is_space (last t)"
  shows "strip t = t"
proof -
  have "dropWhile is_space t = t"
    using assms by (simp add: dropWhile_hd)
  moreover have "dropWhile is_space (rev t) = rev t"
    using assms by (simp add: dropWhile_hd hd_rev)
  ultimately show ?thesis
    by (simp add: strip_def)
qed

lemma sign_digit: "t \<noteq> [] \<Longrightarrow> is_digit (hd t) \<Longrightarrow> sign t = (False, t)"
  by (cases t) (auto simp: is_digit_def)

lemma lower_digit: "t \<noteq> [] \<Longrightarrow> is_digit (hd t) \<Longrightarrow> lower t \<noteq> ''nan''"
  by (cases t) (auto simp: is_digit_def lower_def)

lemma py_float_digits:
  assumes "i \<noteq> []" "list_all is_digit i"
  shows "py_float i = Some (Some (decimal_value i []))"
proof -
  obtain c cs where i: "i = c # cs"
    using assms(1) by (cases i) auto
  have c: "is_digit c" and l: "is_digit (last i)"
    using assms i by (auto simp: list_all_iff)
  have "strip i = i"
    using assms(1) c l i by (simp add: strip_id digit_not_space)
  moreover have "sign i = (False, i)"
    using c i by (intro sign_digit) simp_all
  moreover have "lower i \<noteq> ''nan''"
    using c i by (intro lower_digit) simp_all
  ultimately show ?thesis
    using assms
    by (simp add: py_float_def digitpart_all exponent_def scale_def decimal_value_def
        digits_value_def)
qed

lemma py_float_point:
  assumes "i \<noteq> []" "list_all is_digit i" "f \<noteq> []" "list_all is_digit f"
  shows "py_float (i @ CHR ''.'' # f) = Some (Some (decimal_value i f))"
proof -
  let ?t = "i @ CHR ''.'' # f"
  obtain c cs where i: "i = c # cs"
    using assms(1) by (cases i) auto
  have c: "is_digit c" and l: "is_digit (last f)"
    using assms i by (auto simp: list_all_iff)
  have "strip ?t = ?t"
    using assms c l i by (simp add: strip_id digit_not_space)
  moreover have "sign ?t = (False, ?t)"
    using c i by (intro sign_digit) simp_all
  moreover have "lower ?t \<noteq> ''nan''"
    using c i by (intro lower_digit) simp_all
  ultimately show ?thesis
    using assms
    by (simp add: py_float_def digitpart_all digitpart_point exponent_def scale_def
        decimal_value_def)
qed

lemma py_float_currency:
  "currency_text s i f \<Longrightarrow>
   py_float (replace CHR '','' [] (replace CHR ''$'' [] s)) = Some (Some (decimal_value i f))"
  by (auto simp: currency_text_def replace_unformatted py_float_digits py_float_point)

subsection \<open>Converting a column\<close>

lemma floats_of_objs_all2:
  "floats_of_objs zs = Inr ys \<Longrightarrow> list_all2 (\<lambda>z y. float_of_obj z = Inr y) zs ys"
  by (induction zs arbitrary: ys) (auto split: sum.splits)

lemma floats_of_objs_total:
  "list_all (\<lambda>z. \<exists>y. float_of_obj z = Inr y) zs \<Longrightarrow> \<exists>ys. floats_of_objs zs = Inr ys"
  by (induction zs) (auto split: sum.splits)

lemma str_replace_twice:
  "list_ex is_text xs \<or> list_all (\<lambda>x. x = None) xs \<Longrightarrow>
   list_ex is_text (map (str_replace_cell a r) xs) \<or>
   list_all (\<lambda>x. x = None) (map (str_replace_cell a r) xs)"
proof (induction xs)
  case Nil
  then show ?case by simp
next
  case (Cons x xs)
  then show ?case
    by (cases x rule: is_text.cases) (auto simp: list_ex_iff list_all_iff)
qed

lemma convert_column_Object:
  "convert_column (Object xs) =
     (if list_ex is_text xs \<or> list_all (\<lambda>x. x = None) xs
      then (case floats_of_objs (map strip_currency xs) of
              Inl e \<Rightarrow> Inl e | Inr vs \<Rightarrow> Inr (Float64 vs))
      else Inl AttributeError)"
  using str_replace_twice [of xs "CHR ''$''" "[]"]
  by (auto simp: convert_column_def strip_currency_def [abs_def] comp_def)

lemma convert_column_other: "\<not> is_object s \<Longrightarrow> convert_column s = Inr (to_numeric s)"
  by (simp add: convert_column_def)

lemma convert_column_fixed: "convert_column s = Inr s' \<Longrightarrow> convert_column s' = Inr s'"
  by (cases s) (auto simp: convert_column_Object convert_column_other split: if_splits sum.splits)

lemma convert_column_cells:
  assumes "convert_column (Object xs) = Inr c"
  shows "\<exists>ys. c = Float64 ys \<and> list_all2 (\<lambda>x y. float_of_obj (strip_currency x) = Inr y) xs ys"
proof -
  obtain ys where c: "c = Float64 ys" and ys: "floats_of_objs (map strip_currency xs) = Inr ys"
    using assms by (auto simp: convert_column_Object split: if_splits sum.splits)
  from floats_of_objs_all2 [OF ys]
  have "list_all2 (\<lambda>x y. float_of_obj (strip_currency x) = Inr y) xs ys"
    by (simp add: list_all2_map1)
  with c show ?thesis by blast
qed

subsection \<open>Reading and writing the columns of a frame\<close>

lemma filter_single: "filter P xs = [y] \<Longrightarrow> x \<in> set xs \<Longrightarrow> P x \<Longrightarrow> x = y"
proof -
  assume f: "filter P xs = [y]" and x: "x \<in> set xs" "P x"
  from x have "x \<in> set (filter P xs)" by simp
  then show "x = y" by (simp add: f)
qed

lemma getitem_Inr:
  "getitem df c = Inr s \<longleftrightarrow> filter (\<lambda>(n, x). n = c) (columns df) = [(c, s)]"
  by (auto simp: getitem_def split: list.splits dest: filter_eq_ConsD)

lemma getitem_mem: "getitem df c = Inr s \<Longrightarrow> c \<in> set (map fst (columns df))"
proof -
  assume "getitem df c = Inr s"
  then have "(c, s) \<in> set (filter (\<lambda>(n, x). n = c) (columns df))"
    by (simp add: getitem_Inr)
  then show ?thesis by force
qed

lemma setitem_same: "getitem df c = Inr s \<Longrightarrow> setitem df c s = df"
proof -
  assume g: "getitem df c = Inr s"
  then have f: "filter (\<lambda>(n, x). n = c) (columns df) = [(c, s)]"
    by (simp add: getitem_Inr)
  have "map (\<lambda>(n, x). if n = c then (n, s) else (n, x)) (columns df) = columns df"
  proof (rule map_idI)
    fix p assume p: "p \<in> set (columns df)"
    show "(case p of (n, x) \<Rightarrow> if n = c then (n, s) else (n, x)) = p"
      using filter_single [OF f p] by (cases p) auto
  qed
  then show ?thesis
    using getitem_mem [OF g] by (simp add: setitem_def)
qed

lemma getitem_setitem_same: "getitem df c = Inr s \<Longrightarrow> getitem (setitem df c s') c = Inr s'"
proof -
  assume g: "getitem df c = Inr s"
  then have f: "filter (\<lambda>(n, x). n = c) (columns df) = [(c, s)]"
    by (simp add: getitem_Inr)
  have "filter (\<lambda>(n, x). n = c) (map (\<lambda>(n, x). if n = c then (n, s') else (n, x)) (columns df))
        = map (\<lambda>(n, x). if n = c then (n, s') else (n, x)) (filter (\<lambda>(n, x). n = c) (columns df))"
    by (induction "columns df") (auto simp: filter_map comp_def split_def)
  then show ?thesis
    using getitem_mem [OF g] f by (simp add: setitem_def getitem_Inr)
qed

lemma getitem_setitem_other: "c' \<noteq> c \<Longrightarrow> getitem (setitem df c s') c' = getitem df c'"
proof -
  assume n: "c' \<noteq> c"
  have "filter (\<lambda>(n, x). n = c') (map (\<lambda>(n, x). if n = c then (n, s') else (n, x)) xs)
        = filter (\<lambda>(n, x). n = c') xs" for xs
    using n by (induction xs) (auto split: if_splits)
  then show ?thesis
    using n by (simp add: setitem_def getitem_def)
qed

subsection \<open>A second pass of the loop changes nothing\<close>

lemma converted_setitem:
  assumes "getitem df col = Inr s" "convert_column s = Inr s'" "converted df c"
  shows "converted (setitem df col s') c"
proof (cases "c = col")
  case True
  then show ?thesis
    using assms getitem_setitem_same [OF assms(1), of s'] convert_column_fixed [OF assms(2)]
    by (auto simp: converted_def)
next
  case False
  then show ?thesis
    using assms(3) by (simp add: converted_def getitem_setitem_other)
qed

lemma converted_kept:
  "convert_numeric_cols cols df = Inr df' \<Longrightarrow> converted df c \<Longrightarrow> converted df' c"
proof (induction cols arbitrary: df)
  case Nil
  then show ?case by simp
next
  case (Cons col cols)
  then show ?case
    by (auto split: sum.splits dest: converted_setitem)
qed

lemma converted_after:
  "convert_numeric_cols cols df = Inr df' \<Longrightarrow> c \<in> set cols \<Longrightarrow> converted df' c"
proof (induction cols arbitrary: df)
  case Nil
  then show ?case by simp
next
  case (Cons col cols)
  from Cons.prems(1) obtain s s' where
    g: "getitem df col = Inr s" and cv: "convert_column s = Inr s'" and
    rest: "convert_numeric_cols cols (setitem df col s') = Inr df'"
    by (auto split: sum.splits)
  show ?case
  proof (cases "c \<in> set cols")
    case True
    then show ?thesis using Cons.IH [OF rest] by simp
  next
    case False
    then have "c = col" using Cons.prems(2) by simp
    moreover have "converted (setitem df col s') col"
      using getitem_setitem_same [OF g, of s'] convert_column_fixed [OF cv]
      by (auto simp: converted_def)
    ultimately show ?thesis
      using converted_kept [OF rest] by simp
  qed
qed

lemma converted_noop: "list_all (converted df) cols \<Longrightarrow> convert_numeric_cols cols df = Inr df"
  by (induction cols) (auto simp: converted_def setitem_same)

lemma convert_numeric_cols_fixed:
  assumes "convert_numeric_cols cols df = Inr df'"
  shows "convert_numeric_cols cols df' = Inr df'"
  using converted_after [OF assms] by (intro converted_noop) (simp add: list_all_iff)

lemma currency_cell_float:
  "currency_cell x \<Longrightarrow> \<exists>y. float_of_obj (strip_currency x) = Inr y"
  by (cases x rule: currency_cell.cases)
    (auto simp: strip_currency_def dest: py_float_currency)

lemma currency_column_converts:
  assumes "list_all currency_cell xs"
  shows "\<exists>ys. convert_column (Object xs) = Inr (Float64 ys)"
proof -
  have "list_ex is_text xs \<or> list_all (\<lambda>x. x = None) xs"
    using assms
  proof (induction xs)
    case Nil
    then show ?case by simp
  next
    case (Cons x xs)
    then show ?case
      by (cases x rule: currency_cell.cases) auto
  qed
  moreover have "\<exists>ys. floats_of_objs (map strip_currency xs) = Inr ys"
    using assms by (intro floats_of_objs_total) (simp add: list_all_iff currency_cell_float)
  ultimately show ?thesis
    by (auto simp: convert_column_Object)
qed

lemma currency_cell_exact:
  assumes "convert_column (Object xs) = Inr (Float64 ys)" "j < length xs"
    "xs ! j = Some (PyStr s)" "currency_text s i f"
  shows "ys ! j = Some (decimal_value i f)"
proof -
  from convert_column_cells [OF assms(1)]
  have "list_all2 (\<lambda>x y. float_of_obj (strip_currency x) = Inr y) xs ys"
    by simp
  then have "float_of_obj (strip_currency (xs ! j)) = Inr (ys ! j)"
    using assms(2) by (simp add: list_all2_conv_all_nth)
  then show ?thesis
    using py_float_currency [OF assms(4)] assms(3) by (simp add: strip_currency_def)
qed

section \<open>Claims about the loader\<close>

text \<open>
  C1. The claim: whenever the file exists, \<open>load_data\<close> returns a table, and a cell of
  a numeric column that does not parse becomes missing. The code does otherwise on the
  sample file with one price changed to the text \<^verbatim>\<open>ask host\<close>: the price column is
  text, so the loop takes its \<^verbatim>\<open>astype(float)\<close> branch, which raises
  \<^verbatim>\<open>ValueError\<close>. The script catches \<^verbatim>\<open>FileNotFoundError\<close> only, so the run ends
  with that exception. The other branch of the same loop, \<^verbatim>\<open>pd.to_numeric\<close> with
  \<^verbatim>\<open>errors='coerce'\<close>, turns the same text into a missing value.
\<close>

theorem unparseable_cell_raises:
  "load_data typo_fs ''airbnb_project_cleaned.csv'' = Inl (ValueError ''ask host'')
   \<and> main typo_fs untouched = ([Set_page_config], Raised (ValueError ''ask host''))
   \<and> to_numeric (Object [Some (PyStr ''ask host'')]) = Float64 [None]"
  by (simp add: main_def load_typo text_defs)

lemma load_mixed: "load_data mixed_fs ''airbnb_project_cleaned.csv'' = Inl (ValueError ''ask host'')"
  by (simp add: mixed_fs_def mixed_csv_def mixed_prices_def sample_csv_def load_defs text_defs)

text \<open>
  C2. The claim: in the loader, every cell holding currency-formatted text becomes the
  number it denotes. The code does otherwise on the sample file with the prices
  \<^verbatim>\<open>$2,000\<close>, \<^verbatim>\<open>$80\<close>, \<^verbatim>\<open>ask host\<close> and \<^verbatim>\<open>$95\<close>. Alone, the cell
  \<^verbatim>\<open>$2,000\<close> becomes the number 2000. In this column the \<^verbatim>\<open>astype(float)\<close> of the
  loop raises \<^verbatim>\<open>ValueError\<close> for the text \<^verbatim>\<open>ask host\<close>, so the loader raises, the
  run ends with the exception, and no cell of the column is coerced. It is the defect
  of C1, seen from the cell beside the one that does not parse.
\<close>

theorem currency_cell_lost_beside_unparseable_cell:
  "getitem (clean_column_names mixed_csv) ''price'' = Inr mixed_prices
   \<and> cells mixed_prices ! 0 = Str ''$2,000''
   \<and> currency_text ''$2,000'' ''2000'' []
   \<and> decimal_value ''2000'' [] = 2000
   \<and> convert_column (Object [Some (PyStr ''$2,000'')]) = Inr (Float64 [Some 2000])
   \<and> convert_column mixed_prices = Inl (ValueError ''ask host'')
   \<and> load_data mixed_fs ''airbnb_project_cleaned.csv'' = Inl (ValueError ''ask host'')
   \<and> main mixed_fs untouched = ([Set_page_config], Raised (ValueError ''ask host''))"
proof -
  have "getitem (clean_column_names mixed_csv) ''price'' = Inr mixed_prices"
    by (simp add: mixed_csv_def sample_csv_def clean_column_names_def getitem_def setitem_def
        strip_def is_space_def replace_def)
  moreover have "cells mixed_prices ! 0 = Str ''$2,000''"
    by (simp add: mixed_prices_def)
  moreover have "currency_text ''$2,000'' ''2000'' []"
    by (simp add: currency_text_def unformatted_def is_digit_def)
  moreover have "decimal_value ''2000'' [] = 2000"
    by (simp add: decimal_value_def digits_value_def digit_val_def)
  moreover have "convert_column (Object [Some (PyStr ''$2,000'')]) = Inr (Float64 [Some 2000])"
    by (simp add: convert_column_def text_defs)
  moreover have "convert_column mixed_prices = Inl (ValueError ''ask host'')"
    by (simp add: mixed_prices_def convert_column_def text_defs)
  moreover have "main mixed_fs untouched = ([Set_page_config], Raised (ValueError ''ask host''))"
    by (simp add: main_def load_mixed)
  ultimately show ?thesis
    using load_mixed by (intro conjI)
qed

text \<open>
  Where one pass of the loop body does return a column: a cell holding
  currency-formatted text has become the number its digits denote (a rational in the
  model), a column of such cells and missing cells is always converted, a numeric
  column is returned unchanged, and a second pass, over a column or over the numeric
  columns of a frame, changes nothing.
\<close>

theorem currency_coercion_exact_idempotent:
  "convert_column (Object [Some (PyStr ''$2,000'')]) = Inr (Float64 [Some 2000])
   \<and> (\<forall>xs ys j s i f.
         convert_column (Object xs) = Inr (Float64 ys) \<and> j < length xs \<and>
         xs ! j = Some (PyStr s) \<and> currency_text s i f
         \<longrightarrow> ys ! j = Some (decimal_value i f))
   \<and> (\<forall>xs. list_all currency_cell xs \<longrightarrow> (\<exists>ys. convert_column (Object xs) = Inr (Float64 ys)))
   \<and> (\<forall>xs. convert_column (Float64 xs) = Inr (Float64 xs))
   \<and> (\<forall>s s'. convert_column s = Inr s' \<longrightarrow> convert_column s' = Inr s')
   \<and> (\<forall>df df'. convert_numeric_cols numeric_cols df = Inr df'
         \<longrightarrow> convert_numeric_cols numeric_cols df' = Inr df')"
proof (intro conjI allI impI)
  show "convert_column (Object [Some (PyStr ''$2,000'')]) = Inr (Float64 [Some 2000])"
    by (simp add: convert_column_def text_defs)
next
  fix xs ys j s i f
  assume "convert_column (Object xs) = Inr (Float64 ys) \<and> j < length xs \<and>
          xs ! j = Some (PyStr s) \<and> currency_text s i f"
  then show "ys ! j = Some (decimal_value i f)"
    using currency_cell_exact by blast
next
  fix xs assume "list_all currency_cell xs"
  then show "\<exists>ys. convert_column (Object xs) = Inr (Float64 ys)"
    by (rule currency_column_converts)
next
  fix xs show "convert_column (Float64 xs) = Inr (Float64 xs)"
    by (simp add: convert_column_def)
next
  fix s s' assume "convert_column s = Inr s'"
  then show "convert_column s' = Inr s'"
    by (rule convert_column_fixed)
next
  fix df df' assume "convert_numeric_cols numeric_cols df = Inr df'"
  then show "convert_numeric_cols numeric_cols df' = Inr df'"
    by (rule convert_numeric_cols_fixed)
qed

theorem currency_coercion_witness:
  "convert_column (Object [Some (PyStr ''$1,200.50''), None]) = Inr (Float64 [Some (2401 / 2), None])
   \<and> currency_text ''$1,200.50'' ''1200'' ''50''
   \<and> [Some (2401 / 2), None] ! 0 = Some (decimal_value ''1200'' ''50'')
   \<and> list_all currency_cell [Some (PyStr ''$1,200.50''), None]
   \<and> convert_column (Float64 [Some (2401 / 2), None]) = Inr (Float64 [Some (2401 / 2), None])
   \<and> (\<exists>df'. convert_numeric_cols numeric_cols (clean_column_names sample_csv) = Inr df'
         \<and> convert_numeric_cols numeric_cols df' = Inr df')"
proof -
  let ?xs = "[Some (PyStr ''$1,200.50''), None]"
  let ?ys = "[Some (2401 / 2 :: rat), None]"
  have c: "convert_column (Object ?xs) = Inr (Float64 ?ys)"
    by (simp add: convert_column_def text_defs)
  have t: "currency_text ''$1,200.50'' ''1200'' ''50''"
    by (simp add: currency_text_def unformatted_def is_digit_def)
  have l: "list_all currency_cell ?xs"
    using t by (simp del: currency_text_def) blast
  have n: "\<exists>df'. convert_numeric_cols numeric_cols (clean_column_names sample_csv) = Inr df'"
    by (simp add: sample_csv_def load_defs text_defs)
  note T = currency_coercion_exact_idempotent
  have e: "?ys ! 0 = Some (decimal_value ''1200'' ''50'')"
    by (rule T [THEN conjunct2, THEN conjunct1, rule_format, of ?xs ?ys 0 "''$1,200.50''"])
      (simp add: c t)
  have i: "convert_column (Float64 ?ys) = Inr (Float64 ?ys)"
    by (rule T [THEN conjunct2, THEN conjunct2, THEN conjunct2, THEN conjunct2, THEN conjunct1,
          rule_format, OF c])
  from n obtain df' where
    d: "convert_numeric_cols numeric_cols (clean_column_names sample_csv) = Inr df'" ..
  have "convert_numeric_cols numeric_cols df' = Inr df'"
    by (rule T [THEN conjunct2, THEN conjunct2, THEN conjunct2, THEN conjunct2, THEN conjunct2,
          rule_format, OF d])
  with d have f: "\<exists>df'. convert_numeric_cols numeric_cols (clean_column_names sample_csv) = Inr df'
         \<and> convert_numeric_cols numeric_cols df' = Inr df'"
    by (intro exI conjI)
  show ?thesis
    by (intro conjI) (rule c t e l i f)+
qed

text \<open>
  C6. When the file is absent, \<open>load_data\<close> raises \<^verbatim>\<open>FileNotFoundError\<close>, and the
  run shows the not-found message and stops: what it shows is the page configuration
  and that message, so no filter and no chart was reached.
\<close>

theorem missing_file_stops:
  "fs ''airbnb_project_cleaned.csv'' = None \<Longrightarrow>
   load_data fs ''airbnb_project_cleaned.csv'' = Inl FileNotFoundError
   \<and> main fs u = ([Set_page_config, Error not_found_message], Stopped)"
  by (simp add: main_def load_data_def read_csv_def)

theorem missing_file_stops_witness:
  "(\<lambda>p. None :: dataframe option) ''airbnb_project_cleaned.csv'' = None
   \<and> load_data (\<lambda>p. None) ''airbnb_project_cleaned.csv'' = Inl FileNotFoundError
   \<and> main (\<lambda>p. None) untouched = ([Set_page_config, Error not_found_message], Stopped)"
  using missing_file_stops [of "\<lambda>p. None" untouched] by simp

section \<open>The filter stage\<close>

lemma select_map: "select m (map f xs) = map f (select m xs)"
  by (induction m xs rule: select.induct) simp_all

lemma select_zip: "select (map P cs) xs = map snd (filter (\<lambda>(c, x). P c) (zip cs xs))"
proof (induction cs arbitrary: xs)
  case Nil
  then show ?case by simp
next
  case (Cons c cs)
  then show ?case by (cases xs) simp_all
qed

lemma select_subseq: "subseq (select m xs) xs"
  by (induction m xs rule: select.induct) auto

lemma select_length: "length (select m xs) \<le> length xs"
  by (induction m xs rule: select.induct) (simp_all add: le_SucI)

lemma select_mono:
  "(\<And>c. P c \<Longrightarrow> Q c) \<Longrightarrow> length (select (map P cs) xs) \<le> length (select (map Q cs) xs)"
proof (induction cs arbitrary: xs)
  case Nil
  then show ?case by simp
next
  case (Cons c cs)
  show ?case
  proof (cases xs)
    case Nil
    then show ?thesis by simp
  next
    case (Cons x xs')
    then show ?thesis
      using Cons.IH [of xs', OF Cons.prems] Cons.prems [of c] by (auto simp: le_SucI)
  qed
qed


lemma select_count:
  "length xs = length cs \<Longrightarrow> length (select (map P cs) xs) = length (filter P cs)"
proof (induction cs arbitrary: xs)
  case Nil
  then show ?case by simp
next
  case (Cons c cs)
  then show ?case by (cases xs) simp_all
qed

lemma set_select:
  "set (select (map P cs) xs) = {xs ! i | i. i < length cs \<and> i < length xs \<and> P (cs ! i)}"
proof -
  have "set (select (map P cs) xs) = snd ` {p \<in> set (zip cs xs). P (fst p)}"
    by (auto simp: select_zip split_def)
  also have "\<dots> = {xs ! i | i. i < length cs \<and> i < length xs \<and> P (cs ! i)}"
    by (force simp: set_zip image_iff)
  finally show ?thesis .
qed

lemma select_nths:
  "length m = length xs \<Longrightarrow> select m xs = map ((!) xs) (select m [0..<length xs])"
proof (induction m xs rule: list_induct2)
  case Nil
  then show ?case by simp
next
  case (Cons b bs x xs)
  have "[0..<Suc (length xs)] = 0 # map Suc [0..<length xs]"
    by (simp add: upt_conv_Cons map_Suc_upt del: upt_Suc)
  then show ?case
    using Cons by (simp add: select_map comp_def del: upt_Suc)
qed

lemma cells_select_column: "cells (select_column m c) = select m (cells c)"
  by (cases c) (simp_all add: select_map)

lemma filter_name_map:
  "filter (\<lambda>(n, x). n = c) (map (\<lambda>(n, x). (n, g x)) xs)
   = map (\<lambda>(n, x). (n, g x)) (filter (\<lambda>(n, x). n = c) xs)"
  by (induction xs) (simp_all add: split_def)

lemma getitem_getitem_mask:
  "getitem (getitem_mask df m) c =
     (case getitem df c of Inl e \<Rightarrow> Inl e | Inr s \<Rightarrow> Inr (select_column m s))"
proof -
  have "filter (\<lambda>(n, x). n = c) (columns (getitem_mask df m))
        = map (\<lambda>(n, x). (n, select_column m x)) (filter (\<lambda>(n, x). n = c) (columns df))"
    by (simp add: getitem_mask_def filter_name_map)
  then show ?thesis
    by (simp add: getitem_def split: list.splits prod.splits)
qed

lemma index_getitem_mask: "index (getitem_mask df m) = select m (index df)"
  by (simp add: getitem_mask_def)

lemma names_getitem_mask: "map fst (columns (getitem_mask df m)) = map fst (columns df)"
  by (simp add: getitem_mask_def comp_def split_def)

lemma length_select_eq:
  "length m = length xs \<Longrightarrow> length ys = length xs \<Longrightarrow> length (select m ys) = length (select m xs)"
  using select_nths [of m xs] select_nths [of m ys] by simp

lemma wf_getitem_mask:
  assumes "wf_frame df" "length m = length (index df)"
  shows "wf_frame (getitem_mask df m)"
  unfolding wf_frame_def list_all_iff
proof
  fix p assume "p \<in> set (columns (getitem_mask df m))"
  then obtain n c where p: "p = (n, select_column m c)" and c: "(n, c) \<in> set (columns df)"
    by (auto simp: getitem_mask_def)
  from c assms(1) have "length (cells c) = length (index df)"
    by (auto simp: wf_frame_def list_all_iff)
  then have "length (select m (cells c)) = length (select m (index df))"
    using assms(2) by (intro length_select_eq) simp_all
  then show "case p of (n, c) \<Rightarrow> length (cells c) = length (index (getitem_mask df m))"
    by (simp add: p cells_select_column index_getitem_mask)
qed

lemma rows_getitem_mask:
  assumes "wf_frame df" "length m = length (index df)"
  shows "rows (getitem_mask df m) = select m (rows df)"
proof -
  let ?n = "length (index df)"
  let ?pos = "select m [0..<?n]"
  have idx: "select m (index df) = map ((!) (index df)) ?pos"
    using assms(2) select_nths [of m "index df"] by simp
  have col: "cells (select_column m c) = map ((!) (cells c)) ?pos"
    if "(n, c) \<in> set (columns df)" for n c
  proof -
    have "length (cells c) = ?n"
      using assms(1) that by (auto simp: wf_frame_def list_all_iff)
    then show ?thesis
      using assms(2) select_nths [of m "cells c"] by (simp add: cells_select_column)
  qed
  have r: "row (getitem_mask df m) j = row df (?pos ! j)" if "j < length ?pos" for j
  proof -
    have "index (getitem_mask df m) ! j = index df ! (?pos ! j)"
      using that by (simp add: index_getitem_mask idx)
    moreover have "map (\<lambda>(n, c). cells c ! j) (columns (getitem_mask df m))
                   = map (\<lambda>(n, c). cells c ! (?pos ! j)) (columns df)"
      using that col by (auto simp: getitem_mask_def)
    ultimately show ?thesis
      by (simp add: row_def)
  qed
  have "length (index (getitem_mask df m)) = length ?pos"
    by (simp add: index_getitem_mask idx)
  then have "rows (getitem_mask df m) = map (\<lambda>j. row df (?pos ! j)) [0..<length ?pos]"
    using r by (simp add: rows_def)
  also have "\<dots> = map (row df) (map ((!) ?pos) [0..<length ?pos])"
    by simp
  also have "\<dots> = map (row df) ?pos"
    by (simp only: map_nth)
  also have "\<dots> = select m (rows df)"
    by (simp add: rows_def select_map)
  finally show ?thesis .
qed

lemma length_isin: "length (isin s vs) = length (cells s)"
  by (simp add: isin_def)

lemma filter_isin_Inr:
  "filter_isin df col vs = Inr f \<longleftrightarrow>
   (\<exists>s. getitem df col = Inr s \<and> f = getitem_mask df (isin s vs))"
  by (auto simp: filter_isin_def split: sum.splits)

lemma wf_column: "wf_frame df \<Longrightarrow> getitem df c = Inr s \<Longrightarrow> length (cells s) = length (index df)"
proof -
  assume w: "wf_frame df" and g: "getitem df c = Inr s"
  from g have "(c, s) \<in> set (filter (\<lambda>(n, x). n = c) (columns df))"
    by (simp add: getitem_Inr)
  then have "(c, s) \<in> set (columns df)" by simp
  with w show ?thesis by (auto simp: wf_frame_def list_all_iff)
qed

lemma filter_isin_rows:
  assumes "wf_frame df" "filter_isin df col vs = Inr f"
  shows "wf_frame f" and "subseq (rows f) (rows df)" and "map fst (columns f) = map fst (columns df)"
proof -
  from assms(2) obtain s where s: "getitem df col = Inr s" and f: "f = getitem_mask df (isin s vs)"
    by (auto simp: filter_isin_Inr)
  have l: "length (isin s vs) = length (index df)"
    using wf_column [OF assms(1) s] by (simp add: length_isin)
  show "wf_frame f"
    unfolding f using assms(1) l by (rule wf_getitem_mask)
  show "subseq (rows f) (rows df)"
    unfolding f by (simp add: rows_getitem_mask [OF assms(1) l] select_subseq)
  show "map fst (columns f) = map fst (columns df)"
    unfolding f by (rule names_getitem_mask)
qed

lemma set_uniques: "set (uniques seen xs) = set seen \<union> set xs"
  by (induction xs arbitrary: seen) auto

lemma distinct_uniques: "distinct seen \<Longrightarrow> distinct (uniques seen xs)"
  by (induction xs arbitrary: seen) auto

lemma set_unique: "set (unique s) = set (cells s)"
  by (simp add: unique_def set_uniques)

lemma distinct_unique: "distinct (unique s)"
  by (simp add: unique_def distinct_uniques)

lemma filter_groups_Inr:
  "filter_groups v picked = Inr v1 \<longleftrightarrow>
   (\<exists>g. getitem (data v) ''neighbourhood_group'' = Inr g \<and>
        v1 = v\<lparr>filtered_data :=
               Some (getitem_mask (data v) (isin g (multiselect (unique g) (unique g) picked)))\<rparr>)"
  by (auto simp: filter_groups_def unique_neighbourhood_groups_def filter_isin_def
      split: sum.splits)

lemma filter_room_types_Inr:
  "filter_room_types v picked = Inr v2 \<longleftrightarrow>
   (\<exists>f r. filtered_data v = Some f \<and> getitem f ''room_type'' = Inr r \<and>
        v2 = v\<lparr>filtered_data :=
               Some (getitem_mask f (isin r (multiselect (unique r) (unique r) picked)))\<rparr>)"
  by (auto simp: filter_room_types_def unique_room_types_def filter_isin_def
      split: sum.splits option.splits)

lemma index_isin_mono:
  "set A \<subseteq> set B \<Longrightarrow>
   length (index (getitem_mask d (isin s A))) \<le> length (index (getitem_mask d (isin s B)))"
  by (auto simp: index_getitem_mask isin_def intro: select_mono)

lemma set_multiselect_mono:
  "set A \<subseteq> set B \<Longrightarrow> set (multiselect opts opts (Some A)) \<subseteq> set (multiselect opts opts (Some B))"
  by (auto simp: multiselect_def)

text \<open>
  C3. The group filter is monotone in the selection. When every value of \<open>A\<close> is
  a value of \<open>B\<close>, filtering a table by \<open>A\<close> leaves at most as many rows as
  filtering it by \<open>B\<close>; in a well-formed table the number of rows left is the
  number of rows whose \<^verbatim>\<open>neighbourhood_group\<close> is in the selection. The same holds
  for the script's first filter, where the selection comes from the widget.
\<close>

theorem group_filter_monotone:
  assumes "set A \<subseteq> set B"
  shows "(\<forall>fa. filter_isin d ''neighbourhood_group'' A = Inr fa \<longrightarrow>
            (\<exists>fb. filter_isin d ''neighbourhood_group'' B = Inr fb \<and>
                  length (index fa) \<le> length (index fb)))
       \<and> (\<forall>s fa. wf_frame d \<and> getitem d ''neighbourhood_group'' = Inr s \<and>
                 filter_isin d ''neighbourhood_group'' A = Inr fa \<longrightarrow>
            length (index fa) = length (filter (\<lambda>v. v \<in> set A) (cells s)))
       \<and> (\<forall>v va. filter_groups v (Some A) = Inr va \<longrightarrow>
            (\<exists>vb fa fb. filter_groups v (Some B) = Inr vb \<and>
                  filtered_data va = Some fa \<and> filtered_data vb = Some fb \<and>
                  length (index fa) \<le> length (index fb)))"
proof (intro conjI allI impI)
  fix fa assume "filter_isin d ''neighbourhood_group'' A = Inr fa"
  then show "\<exists>fb. filter_isin d ''neighbourhood_group'' B = Inr fb \<and>
                  length (index fa) \<le> length (index fb)"
    using index_isin_mono [OF assms] by (auto simp: filter_isin_Inr)
next
  fix s fa
  assume h: "wf_frame d \<and> getitem d ''neighbourhood_group'' = Inr s \<and>
             filter_isin d ''neighbourhood_group'' A = Inr fa"
  then have "length (index d) = length (cells s)"
    using wf_column [of d "''neighbourhood_group''" s] by simp
  then show "length (index fa) = length (filter (\<lambda>v. v \<in> set A) (cells s))"
    using h by (auto simp: filter_isin_Inr index_getitem_mask isin_def select_count)
next
  fix v va assume "filter_groups v (Some A) = Inr va"
  then show "\<exists>vb fa fb. filter_groups v (Some B) = Inr vb \<and>
                  filtered_data va = Some fa \<and> filtered_data vb = Some fb \<and>
                  length (index fa) \<le> length (index fb)"
    using index_isin_mono [OF set_multiselect_mono [OF assms]]
    by (auto simp: filter_groups_Inr)
qed

lemma unique_room_types_Inr:
  "unique_room_types v = Inr opts \<longleftrightarrow>
   (\<exists>f r. filtered_data v = Some f \<and> getitem f ''room_type'' = Inr r \<and> opts = unique r)"
  by (auto simp: unique_room_types_def split: sum.splits option.splits)

lemma run_steps_prefix: "set out \<subseteq> set (fst (run_steps ss d out))"
proof (induction ss d out rule: run_steps.induct)
  case (1 d out)
  then show ?case by simp
next
  case (2 e ss d out)
  then show ?case by auto
next
  case (3 b ss d out)
  then show ?case by (cases "b d") auto
qed

lemma dashboard_offers_room_types:
  assumes "filter_groups v (picked_groups u) = Inr v1" "unique_room_types v1 = Inr opts"
  shows "Sidebar_multiselect ''Select Room Type(s)'' opts opts \<in> set (fst (dashboard v u out))"
proof -
  let ?e = "Sidebar_multiselect ''Select Room Type(s)'' opts opts"
  from assms(1) obtain g where g: "unique_neighbourhood_groups (data v) = Inr g"
    by (auto simp: filter_groups_def split: sum.splits)
  have p: "?e \<in> set (fst (run_steps chart_steps f (xs @ ?e # ys)))" for f xs ys
    using run_steps_prefix [of "xs @ ?e # ys" chart_steps f] by auto
  show ?thesis
    using assms g p [of _ "out @ [Sidebar_header ''Filter Options'',
        Sidebar_multiselect ''Select Neighbourhood Group(s)'' g g]"]
    by (auto simp: dashboard_def Let_def split: sum.splits option.splits)
qed

text \<open>
  C4. After the group filter, the room types offered are the distinct values of
  \<^verbatim>\<open>room_type\<close> in the rows whose \<^verbatim>\<open>neighbourhood_group\<close> is selected: each
  once, and exactly those. A narrower group selection offers a subset of the room
  types. The options are the ones the sidebar widget of the dashboard is given.
\<close>

theorem room_type_options_follow_group_filter:
  "(\<forall>v picked v1 g r.
      filter_groups v picked = Inr v1 \<and> getitem (data v) ''neighbourhood_group'' = Inr g \<and>
      getitem (data v) ''room_type'' = Inr r \<longrightarrow>
      (\<exists>opts. unique_room_types v1 = Inr opts \<and> distinct opts \<and>
         set opts = {cells r ! i | i. i < length (cells g) \<and> i < length (cells r) \<and>
                       cells g ! i \<in> set (multiselect (unique g) (unique g) picked)}))
   \<and> (\<forall>v A B va oa.
        set A \<subseteq> set B \<and> filter_groups v (Some A) = Inr va \<and> unique_room_types va = Inr oa \<longrightarrow>
        (\<exists>vb ob. filter_groups v (Some B) = Inr vb \<and> unique_room_types vb = Inr ob \<and>
                 set oa \<subseteq> set ob))
   \<and> (\<forall>v u v1 opts out.
        filter_groups v (picked_groups u) = Inr v1 \<and> unique_room_types v1 = Inr opts \<longrightarrow>
        Sidebar_multiselect ''Select Room Type(s)'' opts opts \<in> set (fst (dashboard v u out)))"
proof (intro conjI allI impI)
  fix v picked v1 g r
  assume h: "filter_groups v picked = Inr v1 \<and> getitem (data v) ''neighbourhood_group'' = Inr g \<and>
      getitem (data v) ''room_type'' = Inr r"
  let ?sel = "multiselect (unique g) (unique g) picked"
  from h have v1: "filtered_data v1 = Some (getitem_mask (data v) (isin g ?sel))"
    by (auto simp: filter_groups_Inr)
  have r: "getitem (getitem_mask (data v) (isin g ?sel)) ''room_type''
           = Inr (select_column (isin g ?sel) r)"
    using h by (simp add: getitem_getitem_mask)
  have "unique_room_types v1 = Inr (unique (select_column (isin g ?sel) r))"
    using v1 r by (simp add: unique_room_types_def)
  moreover have "set (unique (select_column (isin g ?sel) r))
      = {cells r ! i | i. i < length (cells g) \<and> i < length (cells r) \<and> cells g ! i \<in> set ?sel}"
    by (simp add: set_unique cells_select_column isin_def set_select)
  ultimately show "\<exists>opts. unique_room_types v1 = Inr opts \<and> distinct opts \<and>
         set opts = {cells r ! i | i. i < length (cells g) \<and> i < length (cells r) \<and>
                       cells g ! i \<in> set ?sel}"
    using distinct_unique by blast
next
  fix v A B va oa
  assume h: "set A \<subseteq> set B \<and> filter_groups v (Some A) = Inr va \<and> unique_room_types va = Inr oa"
  then obtain g where g: "getitem (data v) ''neighbourhood_group'' = Inr g"
    and va: "filtered_data va = Some (getitem_mask (data v) (isin g (multiselect (unique g) (unique g) (Some A))))"
    by (auto simp: filter_groups_Inr)
  let ?ma = "isin g (multiselect (unique g) (unique g) (Some A))"
  let ?mb = "isin g (multiselect (unique g) (unique g) (Some B))"
  from h va obtain r where r: "getitem (data v) ''room_type'' = Inr r"
    and oa: "oa = unique (select_column ?ma r)"
    by (auto simp: unique_room_types_Inr getitem_getitem_mask split: sum.splits)
  let ?vb = "v\<lparr>filtered_data := Some (getitem_mask (data v) ?mb)\<rparr>"
  have "filter_groups v (Some B) = Inr ?vb"
    using g by (simp add: filter_groups_Inr)
  moreover have "unique_room_types ?vb = Inr (unique (select_column ?mb r))"
    using r by (simp add: unique_room_types_def getitem_getitem_mask)
  moreover have "set oa \<subseteq> set (unique (select_column ?mb r))"
    using set_multiselect_mono [of A B "unique g"] h
    by (auto simp: oa set_unique cells_select_column isin_def set_select)
  ultimately show "\<exists>vb ob. filter_groups v (Some B) = Inr vb \<and> unique_room_types vb = Inr ob \<and>
                 set oa \<subseteq> set ob"
    by blast
next
  fix v u v1 opts out
  assume "filter_groups v (picked_groups (u :: ui)) = Inr v1 \<and> unique_room_types v1 = Inr opts"
  then show "Sidebar_multiselect ''Select Room Type(s)'' opts opts \<in> set (fst (dashboard v u out))"
    using dashboard_offers_room_types by blast
qed

lemma subseq_set: "subseq xs ys \<Longrightarrow> set xs \<subseteq> set ys"
  by (induction rule: list_emb.induct) auto

lemma filter_groups_base: "filter_groups (v\<lparr>filtered_data := x\<rparr>) picked = filter_groups v picked"
  by (simp add: filter_groups_def split: sum.splits)

lemma filter_stage_base: "filter_stage (v\<lparr>filtered_data := x\<rparr>) u = filter_stage v u"
  by (simp add: filter_stage_def filter_groups_base)

lemma filter_stage_Inr:
  assumes "filter_stage v u = Inr v'"
  shows "\<exists>f1 f2 opts1 opts2.
           filter_isin (data v) ''neighbourhood_group'' opts1 = Inr f1 \<and>
           filter_isin f1 ''room_type'' opts2 = Inr f2 \<and>
           v' = v\<lparr>filtered_data := Some f2\<rparr>"
proof -
  from assms obtain v1 where v1: "filter_groups v (picked_groups u) = Inr v1"
    and v': "filter_room_types v1 (picked_room_types u) = Inr v'"
    by (auto simp: filter_stage_def split: sum.splits)
  from v1 obtain f1 opts1 where f1: "filter_isin (data v) ''neighbourhood_group'' opts1 = Inr f1"
    and e1: "v1 = v\<lparr>filtered_data := Some f1\<rparr>"
    by (auto simp: filter_groups_def split: sum.splits)
  from v' e1 obtain f2 opts2 where f2: "filter_isin f1 ''room_type'' opts2 = Inr f2"
    and e2: "v' = v1\<lparr>filtered_data := Some f2\<rparr>"
    by (auto simp: filter_room_types_def split: sum.splits option.splits)
  show ?thesis
    using f1 f2 e1 e2 by auto
qed

text \<open>
  C7. The filter stage leaves the variable \<open>data\<close> as it was. The rows of the
  filtered table are rows of \<open>data\<close>, in the order they have there, under the same
  column names. Filtering again, from the state the stage left, is filtering the
  same base table.
\<close>

theorem filter_stage_keeps_rows_in_order:
  assumes "wf_frame (data v)" "filter_stage v u = Inr v'"
  shows "data v' = data v
       \<and> (\<exists>f. filtered_data v' = Some f \<and> subseq (rows f) (rows (data v)) \<and>
               set (rows f) \<subseteq> set (rows (data v)) \<and>
               map fst (columns f) = map fst (columns (data v)))
       \<and> (\<forall>u2. filter_stage v' u2 = filter_stage v u2)"
proof -
  from filter_stage_Inr [OF assms(2)] obtain f1 f2 opts1 opts2 where
    f1: "filter_isin (data v) ''neighbourhood_group'' opts1 = Inr f1" and
    f2: "filter_isin f1 ''room_type'' opts2 = Inr f2" and
    v': "v' = v\<lparr>filtered_data := Some f2\<rparr>"
    by blast
  note r1 = filter_isin_rows [OF assms(1) f1]
  note r2 = filter_isin_rows [OF r1(1) f2]
  have s: "subseq (rows f2) (rows (data v))"
    using r2(2) r1(2) by (rule subseq_order.trans)
  have "filtered_data v' = Some f2 \<and> subseq (rows f2) (rows (data v)) \<and>
        set (rows f2) \<subseteq> set (rows (data v)) \<and>
        map fst (columns f2) = map fst (columns (data v))"
    using s subseq_set [OF s] r1(3) r2(3) by (simp add: v')
  then show ?thesis
    by (auto simp: v' filter_stage_base)
qed

lemma sample_wf: "wf_frame sample_data"
  by (simp add: wf_frame_def sample_data_def)

lemma sample_brooklyn:
  "filter_stage \<lparr>data = sample_data, filtered_data = None\<rparr> brooklyn_only
   = Inr \<lparr>data = sample_data, filtered_data = Some brooklyn_data\<rparr>"
  by (simp add: filter_stage_def filter_groups_def filter_room_types_def
      unique_neighbourhood_groups_def unique_room_types_def filter_isin_def getitem_def
      getitem_mask_def multiselect_def unique_def isin_def brooklyn_only_def
      sample_data_def brooklyn_data_def)

theorem filter_stage_rows_witness:
  "wf_frame (data \<lparr>data = sample_data, filtered_data = None\<rparr>)
   \<and> filter_stage \<lparr>data = sample_data, filtered_data = None\<rparr> brooklyn_only
       = Inr \<lparr>data = sample_data, filtered_data = Some brooklyn_data\<rparr>
   \<and> index brooklyn_data = [1, 3]
   \<and> subseq (rows brooklyn_data) (rows sample_data)
   \<and> filter_stage \<lparr>data = sample_data, filtered_data = Some brooklyn_data\<rparr> untouched
       = filter_stage \<lparr>data = sample_data, filtered_data = None\<rparr> untouched"
proof -
  let ?v = "\<lparr>data = sample_data, filtered_data = None\<rparr>"
  have w: "wf_frame (data ?v)"
    by (simp add: sample_wf)
  note T = filter_stage_keeps_rows_in_order [OF w sample_brooklyn]
  have "subseq (rows brooklyn_data) (rows sample_data)"
    using T by simp
  moreover have "filter_stage \<lparr>data = sample_data, filtered_data = Some brooklyn_data\<rparr> untouched
       = filter_stage ?v untouched"
    using T by simp
  moreover have "index brooklyn_data = [1, 3]"
    by (simp add: brooklyn_data_def)
  ultimately show ?thesis
    using w sample_brooklyn by simp
qed

lemma sample_groups:
  "getitem sample_data ''neighbourhood_group''
   = Inr (Object [Some (PyStr ''Manhattan''), Some (PyStr ''Brooklyn''),
                  Some (PyStr ''Manhattan''), Some (PyStr ''Brooklyn'')])"
  by (simp add: getitem_def sample_data_def)

lemma sample_rooms:
  "getitem sample_data ''room_type''
   = Inr (Object [Some (PyStr ''Entire home/apt''), Some (PyStr ''Private room''),
                  Some (PyStr ''Private room''), None])"
  by (simp add: getitem_def sample_data_def)

lemma sample_brooklyn_groups:
  "filter_groups \<lparr>data = sample_data, filtered_data = None\<rparr> (Some [Str ''Brooklyn''])
   = Inr \<lparr>data = sample_data, filtered_data = Some brooklyn_data\<rparr>"
  by (simp add: filter_groups_def unique_neighbourhood_groups_def filter_isin_def sample_groups
      multiselect_def unique_def isin_def)
    (simp add: getitem_mask_def sample_data_def brooklyn_data_def)

lemma brooklyn_room_types:
  "unique_room_types \<lparr>data = sample_data, filtered_data = Some brooklyn_data\<rparr>
   = Inr [Str ''Private room'', NaN]"
  by (simp add: unique_room_types_def getitem_def brooklyn_data_def unique_def)

theorem group_filter_monotone_witness:
  "set [Str ''Manhattan''] \<subseteq> set [Str ''Manhattan'', Str ''Brooklyn'']
   \<and> wf_frame sample_data
   \<and> (\<exists>s fa fb. getitem sample_data ''neighbourhood_group'' = Inr s \<and>
         filter_isin sample_data ''neighbourhood_group'' [Str ''Manhattan''] = Inr fa \<and>
         filter_isin sample_data ''neighbourhood_group'' [Str ''Manhattan'', Str ''Brooklyn''] = Inr fb \<and>
         length (index fa) \<le> length (index fb) \<and> length (index fa) = 2)
   \<and> (\<exists>va vb fa fb.
         filter_groups \<lparr>data = sample_data, filtered_data = None\<rparr> (Some [Str ''Manhattan'']) = Inr va \<and>
         filter_groups \<lparr>data = sample_data, filtered_data = None\<rparr>
           (Some [Str ''Manhattan'', Str ''Brooklyn'']) = Inr vb \<and>
         filtered_data va = Some fa \<and> filtered_data vb = Some fb \<and>
         length (index fa) \<le> length (index fb))"
proof -
  let ?A = "[Str ''Manhattan'']"
  let ?B = "[Str ''Manhattan'', Str ''Brooklyn'']"
  let ?v = "\<lparr>data = sample_data, filtered_data = None\<rparr>"
  have sub: "set ?A \<subseteq> set ?B" by simp
  note T = group_filter_monotone [OF sub, where d = sample_data]
  obtain fa where fa: "filter_isin sample_data ''neighbourhood_group'' ?A = Inr fa"
    by (simp add: filter_isin_def sample_groups)
  from T [THEN conjunct1, rule_format, OF fa] obtain fb where
    fb: "filter_isin sample_data ''neighbourhood_group'' ?B = Inr fb"
      "length (index fa) \<le> length (index fb)"
    by blast
  have "length (index fa) = length (filter (\<lambda>v. v \<in> set ?A) (cells (Object
      [Some (PyStr ''Manhattan''), Some (PyStr ''Brooklyn''),
       Some (PyStr ''Manhattan''), Some (PyStr ''Brooklyn'')])))"
    by (rule T [THEN conjunct2, THEN conjunct1, rule_format]) (simp add: sample_wf sample_groups fa)
  then have n: "length (index fa) = 2"
    by simp
  obtain va where va: "filter_groups ?v (Some ?A) = Inr va"
    by (simp add: filter_groups_Inr sample_groups)
  from T [THEN conjunct2, THEN conjunct2, rule_format, OF va]
  have g: "\<exists>va vb fa fb. filter_groups ?v (Some ?A) = Inr va \<and> filter_groups ?v (Some ?B) = Inr vb \<and>
         filtered_data va = Some fa \<and> filtered_data vb = Some fb \<and>
         length (index fa) \<le> length (index fb)"
    using va by blast
  have "\<exists>s fa fb. getitem sample_data ''neighbourhood_group'' = Inr s \<and>
         filter_isin sample_data ''neighbourhood_group'' ?A = Inr fa \<and>
         filter_isin sample_data ''neighbourhood_group'' ?B = Inr fb \<and>
         length (index fa) \<le> length (index fb) \<and> length (index fa) = 2"
    using sample_groups fa fb n by blast
  then show ?thesis
    using sub sample_wf g by (intro conjI)
qed

theorem room_type_options_witness:
  "filter_groups \<lparr>data = sample_data, filtered_data = None\<rparr> (Some [Str ''Brooklyn''])
     = Inr \<lparr>data = sample_data, filtered_data = Some brooklyn_data\<rparr>
   \<and> unique_room_types \<lparr>data = sample_data, filtered_data = Some brooklyn_data\<rparr>
     = Inr [Str ''Private room'', NaN]
   \<and> (\<exists>g r. getitem sample_data ''neighbourhood_group'' = Inr g \<and>
         getitem sample_data ''room_type'' = Inr r \<and>
         unique r = [Str ''Entire home/apt'', Str ''Private room'', NaN] \<and>
         set [Str ''Private room'', NaN]
           = {cells r ! i | i. i < length (cells g) \<and> i < length (cells r) \<and>
                cells g ! i \<in> set (multiselect (unique g) (unique g) (Some [Str ''Brooklyn'']))})
   \<and> set [Str ''Brooklyn''] \<subseteq> set [Str ''Brooklyn'', Str ''Manhattan'']
   \<and> (\<exists>vb ob. filter_groups \<lparr>data = sample_data, filtered_data = None\<rparr>
                   (Some [Str ''Brooklyn'', Str ''Manhattan'']) = Inr vb \<and>
         unique_room_types vb = Inr ob \<and> set [Str ''Private room'', NaN] \<subseteq> set ob)
   \<and> Sidebar_multiselect ''Select Room Type(s)'' [Str ''Private room'', NaN] [Str ''Private room'', NaN]
       \<in> set (fst (dashboard \<lparr>data = sample_data, filtered_data = None\<rparr> brooklyn_only []))"
proof -
  let ?v = "\<lparr>data = sample_data, filtered_data = None\<rparr>"
  let ?v1 = "\<lparr>data = sample_data, filtered_data = Some brooklyn_data\<rparr>"
  let ?g = "Object [Some (PyStr ''Manhattan''), Some (PyStr ''Brooklyn''),
                    Some (PyStr ''Manhattan''), Some (PyStr ''Brooklyn'')]"
  let ?r = "Object [Some (PyStr ''Entire home/apt''), Some (PyStr ''Private room''),
                    Some (PyStr ''Private room''), None]"
  note T = room_type_options_follow_group_filter
  have g: "getitem (data ?v) ''neighbourhood_group'' = Inr ?g"
    and r: "getitem (data ?v) ''room_type'' = Inr ?r"
    by (simp_all add: sample_groups sample_rooms)
  from T [THEN conjunct1, rule_format, of ?v "Some [Str ''Brooklyn'']" ?v1 ?g ?r]
  have "\<exists>opts. unique_room_types ?v1 = Inr opts \<and> distinct opts \<and>
         set opts = {cells ?r ! i | i. i < length (cells ?g) \<and> i < length (cells ?r) \<and>
                       cells ?g ! i \<in> set (multiselect (unique ?g) (unique ?g) (Some [Str ''Brooklyn'']))}"
    using sample_brooklyn_groups g r by simp
  then have s: "set [Str ''Private room'', NaN]
      = {cells ?r ! i | i. i < length (cells ?g) \<and> i < length (cells ?r) \<and>
                       cells ?g ! i \<in> set (multiselect (unique ?g) (unique ?g) (Some [Str ''Brooklyn'']))}"
    by (simp add: brooklyn_room_types)
  have u: "unique ?r = [Str ''Entire home/apt'', Str ''Private room'', NaN]"
    by (simp add: unique_def)
  have c1: "\<exists>g r. getitem sample_data ''neighbourhood_group'' = Inr g \<and>
         getitem sample_data ''room_type'' = Inr r \<and>
         unique r = [Str ''Entire home/apt'', Str ''Private room'', NaN] \<and>
         set [Str ''Private room'', NaN]
           = {cells r ! i | i. i < length (cells g) \<and> i < length (cells r) \<and>
                cells g ! i \<in> set (multiselect (unique g) (unique g) (Some [Str ''Brooklyn'']))}"
    using sample_groups sample_rooms u s by blast
  have sub: "set [Str ''Brooklyn''] \<subseteq> set [Str ''Brooklyn'', Str ''Manhattan'']"
    by simp
  have c2: "\<exists>vb ob. filter_groups ?v (Some [Str ''Brooklyn'', Str ''Manhattan'']) = Inr vb \<and>
         unique_room_types vb = Inr ob \<and> set [Str ''Private room'', NaN] \<subseteq> set ob"
    by (rule T [THEN conjunct2, THEN conjunct1, rule_format, of "[Str ''Brooklyn'']" _ ?v ?v1])
      (simp add: sample_brooklyn_groups brooklyn_room_types)
  have c3: "Sidebar_multiselect ''Select Room Type(s)'' [Str ''Private room'', NaN] [Str ''Private room'', NaN]
       \<in> set (fst (dashboard ?v brooklyn_only []))"
    by (rule T [THEN conjunct2, THEN conjunct2, rule_format, of ?v brooklyn_only ?v1])
      (simp add: brooklyn_only_def sample_brooklyn_groups brooklyn_room_types)
  show ?thesis
    using sample_brooklyn_groups brooklyn_room_types c1 sub c2 c3 by (intro conjI)
qed

section \<open>The empty-result stop\<close>

lemma select_Nil: "select m [] = []"
  by (cases m) simp_all

lemma select_none: "select (map (\<lambda>v. False) cs) xs = []"
proof (induction cs arbitrary: xs)
  case Nil
  then show ?case by simp
next
  case (Cons c cs)
  then show ?case by (cases xs) simp_all
qed

lemma isin_Nil: "isin s [] = map (\<lambda>v. False) (cells s)"
  by (simp add: isin_def)

lemma empty_selection_index:
  assumes "filter_stage v u = Inr v'"
    "selected_groups v u = Inr [] \<or>
     (\<exists>v1. filter_groups v (picked_groups u) = Inr v1 \<and> selected_room_types v1 u = Inr [])"
  shows "\<exists>f. filtered_data v' = Some f \<and> index f = []"
proof -
  from assms(1) obtain v1 where v1: "filter_groups v (picked_groups u) = Inr v1"
    and v': "filter_room_types v1 (picked_room_types u) = Inr v'"
    by (auto simp: filter_stage_def split: sum.splits)
  from v1 obtain g where g: "getitem (data v) ''neighbourhood_group'' = Inr g" and
    f1: "filtered_data v1 = Some (getitem_mask (data v)
           (isin g (multiselect (unique g) (unique g) (picked_groups u))))"
    by (auto simp: filter_groups_Inr)
  let ?f1 = "getitem_mask (data v) (isin g (multiselect (unique g) (unique g) (picked_groups u)))"
  from v' f1 obtain r where r: "getitem ?f1 ''room_type'' = Inr r" and
    f2: "filtered_data v' = Some (getitem_mask ?f1
           (isin r (multiselect (unique r) (unique r) (picked_room_types u))))"
    by (auto simp: filter_room_types_Inr)
  from assms(2) show ?thesis
  proof
    assume "selected_groups v u = Inr []"
    then have "multiselect (unique g) (unique g) (picked_groups u) = []"
      using g by (simp add: selected_groups_def unique_neighbourhood_groups_def)
    then show ?thesis
      by (simp add: f2 index_getitem_mask isin_Nil select_none select_Nil)
  next
    assume "\<exists>v1. filter_groups v (picked_groups u) = Inr v1 \<and> selected_room_types v1 u = Inr []"
    then have "selected_room_types v1 u = Inr []"
      using v1 by auto
    then have "multiselect (unique r) (unique r) (picked_room_types u) = []"
      using f1 r by (simp add: selected_room_types_def unique_room_types_def)
    then show ?thesis
      by (simp add: f2 index_getitem_mask isin_Nil select_none)
  qed
qed

lemma dashboard_filtered:
  assumes "filter_stage v u = Inr v'" "filtered_data v' = Some f"
  shows "\<exists>gs rs. dashboard v u out =
           (if empty f
            then (out @ [Sidebar_header ''Filter Options'',
                         Sidebar_multiselect ''Select Neighbourhood Group(s)'' gs gs,
                         Sidebar_multiselect ''Select Room Type(s)'' rs rs,
                         Title ''Airbnb Listings Dashboard'',
                         Markdown ''Explore key metrics and distributions of Airbnb listings using this interactive dashboard.'',
                         Warning no_data_message], Stopped)
            else run_steps chart_steps f
                   (out @ [Sidebar_header ''Filter Options'',
                         Sidebar_multiselect ''Select Neighbourhood Group(s)'' gs gs,
                         Sidebar_multiselect ''Select Room Type(s)'' rs rs,
                         Title ''Airbnb Listings Dashboard'',
                         Markdown ''Explore key metrics and distributions of Airbnb listings using this interactive dashboard.'']))"
proof -
  from assms(1) obtain v1 where v1: "filter_groups v (picked_groups u) = Inr v1"
    and v': "filter_room_types v1 (picked_room_types u) = Inr v'"
    by (auto simp: filter_stage_def split: sum.splits)
  from v1 obtain gs where gs: "unique_neighbourhood_groups (data v) = Inr gs"
    by (auto simp: filter_groups_def split: sum.splits)
  from v' obtain rs where rs: "unique_room_types v1 = Inr rs"
    by (auto simp: filter_room_types_def split: sum.splits)
  show ?thesis
    using v1 v' gs rs assms(2)
    by (intro exI [of _ gs] exI [of _ rs]) (simp add: dashboard_def Let_def)
qed

text \<open>
  C5. When \<^verbatim>\<open>selected_groups\<close> is empty or \<^verbatim>\<open>selected_room_types\<close> is empty, the
  filtered table has no rows. Whenever the filtered table is empty, the run ends at \<^verbatim>\<open>st.stop()\<close>,
  the last thing it shows is the no-data warning, and it shows no chart: no chart
  builder was reached. (The script has nine chart builders.)
\<close>

theorem empty_selection_stops_with_warning:
  "(\<forall>v u v'.
        filter_stage v u = Inr v' \<and>
        (selected_groups v u = Inr [] \<or>
         (\<exists>v1. filter_groups v (picked_groups u) = Inr v1 \<and> selected_room_types v1 u = Inr []))
        \<longrightarrow> (\<exists>f. filtered_data v' = Some f \<and> index f = [] \<and> empty f))
   \<and> (\<forall>fs u d v' f.
        load_data fs ''airbnb_project_cleaned.csv'' = Inr d \<and>
        filter_stage \<lparr>data = d, filtered_data = None\<rparr> u = Inr v' \<and>
        filtered_data v' = Some f \<and> empty f \<longrightarrow>
        snd (main fs u) = Stopped \<and>
        last (fst (main fs u)) = Warning no_data_message \<and>
        \<not> list_ex is_chart (fst (main fs u)))"
proof -
  have a: "\<exists>f. filtered_data v' = Some f \<and> index f = [] \<and> empty f"
    if "filter_stage v u = Inr v' \<and>
        (selected_groups v u = Inr [] \<or>
         (\<exists>v1. filter_groups v (picked_groups u) = Inr v1 \<and> selected_room_types v1 u = Inr []))"
    for v v' u
    using that empty_selection_index [of v u v'] by (auto simp: empty_def)
  have b: "snd (main fs u) = Stopped \<and>
        last (fst (main fs u)) = Warning no_data_message \<and>
        \<not> list_ex is_chart (fst (main fs u))"
    if h: "load_data fs ''airbnb_project_cleaned.csv'' = Inr d \<and>
        filter_stage \<lparr>data = d, filtered_data = None\<rparr> u = Inr v' \<and>
        filtered_data v' = Some f \<and> empty f"
    for fs u d v' f
  proof -
    from h obtain gs rs where
      "dashboard \<lparr>data = d, filtered_data = None\<rparr> u
         [Set_page_config, Success ''Data loaded successfully!'']
       = ([Set_page_config, Success ''Data loaded successfully!'',
           Sidebar_header ''Filter Options'',
           Sidebar_multiselect ''Select Neighbourhood Group(s)'' gs gs,
           Sidebar_multiselect ''Select Room Type(s)'' rs rs,
           Title ''Airbnb Listings Dashboard'',
           Markdown ''Explore key metrics and distributions of Airbnb listings using this interactive dashboard.'',
           Warning no_data_message], Stopped)"
      using dashboard_filtered [of "\<lparr>data = d, filtered_data = None\<rparr>" u v' f
          "[Set_page_config, Success ''Data loaded successfully!'']"]
      by auto
    then show ?thesis
      using h by (simp add: main_def)
  qed
  show ?thesis
    using a b by blast
qed

lemma sample_nothing_picked:
  "\<exists>f. filter_stage \<lparr>data = sample_data, filtered_data = None\<rparr> nothing_picked
        = Inr \<lparr>data = sample_data, filtered_data = Some f\<rparr>"
  by (simp add: filter_stage_def filter_groups_def filter_room_types_def
      unique_neighbourhood_groups_def unique_room_types_def filter_isin_def sample_groups
      getitem_getitem_mask sample_rooms nothing_picked_def)

theorem empty_selection_witness:
  "selected_groups \<lparr>data = sample_data, filtered_data = None\<rparr> nothing_picked = Inr []
   \<and> load_data sample_fs ''airbnb_project_cleaned.csv'' = Inr sample_data
   \<and> (\<exists>f. filter_stage \<lparr>data = sample_data, filtered_data = None\<rparr> nothing_picked
             = Inr \<lparr>data = sample_data, filtered_data = Some f\<rparr>
          \<and> index f = [] \<and> empty f)
   \<and> snd (main sample_fs nothing_picked) = Stopped
   \<and> last (fst (main sample_fs nothing_picked)) = Warning no_data_message
   \<and> \<not> list_ex is_chart (fst (main sample_fs nothing_picked))"
proof -
  let ?v = "\<lparr>data = sample_data, filtered_data = None\<rparr>"
  note T = empty_selection_stops_with_warning
  have p: "selected_groups ?v nothing_picked = Inr []"
    by (simp add: selected_groups_def unique_neighbourhood_groups_def sample_groups
        multiselect_def nothing_picked_def)
  from sample_nothing_picked obtain f where
    f: "filter_stage ?v nothing_picked = Inr \<lparr>data = sample_data, filtered_data = Some f\<rparr>"
    by blast
  from T [THEN conjunct1, rule_format, of ?v nothing_picked] p f
  have e: "index f = [] \<and> empty f"
    by simp
  have m: "snd (main sample_fs nothing_picked) = Stopped \<and>
        last (fst (main sample_fs nothing_picked)) = Warning no_data_message \<and>
        \<not> list_ex is_chart (fst (main sample_fs nothing_picked))"
    by (rule T [THEN conjunct2, rule_format, of sample_fs sample_data nothing_picked
          "\<lparr>data = sample_data, filtered_data = Some f\<rparr>" f])
      (simp add: load_sample f e)
  show ?thesis
    using p load_sample f e m by blast
qed

section \<open>The charts\<close>

lemma encode_mem:
  "encode t enc = Inr chs \<Longrightarrow> (ch, col) \<in> set enc \<Longrightarrow>
   \<exists>vs. (ch, vs) \<in> set chs \<and> filter (\<lambda>(n, vs). n = col) t = [(col, vs)]"
proof (induction enc arbitrary: chs)
  case Nil
  then show ?case by simp
next
  case (Cons e enc)
  obtain ch' col' where e: "e = (ch', col')" by (cases e)
  from Cons.prems(1) e obtain vs' r where
    f: "filter (\<lambda>(n, vs). n = col') t = [(col', vs')]" and
    r: "encode t enc = Inr r" and chs: "chs = (ch', vs') # r"
    by (auto split: list.splits sum.splits dest: filter_eq_ConsD)
  show ?case
  proof (cases "(ch, col) = (ch', col')")
    case True
    then show ?thesis using f chs by auto
  next
    case False
    then have "(ch, col) \<in> set enc" using Cons.prems(2) e by auto
    from Cons.IH [OF r this] show ?thesis using chs by auto
  qed
qed

lemma to_table_filter:
  "filter (\<lambda>(n, vs). n = col) (to_table d)
   = map (\<lambda>(n, c). (n, cells c)) (filter (\<lambda>(n, c). n = col) (columns d))"
  by (simp add: to_table_def filter_name_map)

lemma to_table_column:
  "filter (\<lambda>(n, vs). n = col) (to_table d) = [(col, vs)] \<Longrightarrow>
   \<exists>s. getitem d col = Inr s \<and> vs = cells s"
proof -
  assume "filter (\<lambda>(n, vs). n = col) (to_table d) = [(col, vs)]"
  then have "map (\<lambda>(n, c). (n, cells c)) (filter (\<lambda>(n, c). n = col) (columns d)) = [(col, vs)]"
    by (simp add: to_table_filter)
  then obtain p where p: "filter (\<lambda>(n, c). n = col) (columns d) = [p]"
    and q: "(case p of (n, c) \<Rightarrow> (n, cells c)) = (col, vs)"
    by (auto simp: map_eq_Cons_conv)
  then show ?thesis
    by (cases p) (auto simp: getitem_Inr)
qed

lemma px_channel:
  assumes "px k (to_table d) enc ttl = Inr c" "(ch, col) \<in> set enc"
  shows "\<exists>s. getitem d col = Inr s \<and> (ch, cells s) \<in> set (channels c)"
proof -
  from assms(1) obtain chs where e: "encode (to_table d) enc = Inr chs" and c: "channels c = chs"
    by (auto simp: px_def split: sum.splits)
  from encode_mem [OF e assms(2)] obtain vs where
    "(ch, vs) \<in> set chs" "filter (\<lambda>(n, vs). n = col) (to_table d) = [(col, vs)]"
    by blast
  then show ?thesis
    using to_table_column [of col d vs] c by auto
qed

lemma px_missing:
  assumes "getitem d col = Inl e" "(ch, col) \<in> set enc"
  shows "\<exists>e'. px k (to_table d) enc ttl = Inl e'"
proof (cases "px k (to_table d) enc ttl")
  case (Inl e')
  then show ?thesis by blast
next
  case (Inr c)
  from px_channel [OF Inr assms(2)] assms(1) show ?thesis by auto
qed

text \<open>
  C9, as amended. The hover label of the two scatter charts is the column named
  \<^verbatim>\<open>NAME\<close>: a chart that is built carries the cells of that column as its
  \<^verbatim>\<open>hover_name\<close>, and on a table without a column of that name neither chart is
  built.
\<close>

theorem hover_label_is_column_NAME:
  "(\<forall>d c. fig_scatter d = Inr c \<longrightarrow>
      (\<exists>s. getitem d ''NAME'' = Inr s \<and> (''hover_name'', cells s) \<in> set (channels c)))
   \<and> (\<forall>d c. fig_bubble d = Inr c \<longrightarrow>
      (\<exists>b s. bubble_data d = Inr b \<and> getitem b ''NAME'' = Inr s \<and>
             (''hover_name'', cells s) \<in> set (channels c)))
   \<and> (\<forall>d e. getitem d ''NAME'' = Inl e \<longrightarrow>
      (\<exists>e'. fig_scatter d = Inl e') \<and> (\<exists>e'. fig_bubble d = Inl e'))"
proof -
  have a: "\<exists>s. getitem d ''NAME'' = Inr s \<and> (''hover_name'', cells s) \<in> set (channels c)"
    if "fig_scatter d = Inr c" for d c
    using that unfolding fig_scatter_def by (rule px_channel) simp
  have b: "\<exists>b s. bubble_data d = Inr b \<and> getitem b ''NAME'' = Inr s \<and>
             (''hover_name'', cells s) \<in> set (channels c)"
    if "fig_bubble d = Inr c" for d c
  proof -
    from that obtain b where b: "bubble_data d = Inr b" and
      p: "px ''scatter'' (to_table b)
            [(''x'', ''minimum_nights''), (''y'', ''price''), (''size'', ''reviews_per_month''),
             (''color'', ''room_type''), (''hover_name'', ''NAME'')]
            ''Price vs. Minimum Nights (Bubble Size by Reviews/Month)'' = Inr c"
      by (auto simp: fig_bubble_def split: sum.splits)
    from px_channel [OF p, of "''hover_name''" "''NAME''"] b show ?thesis
      by simp
  qed
  have c1: "\<exists>e'. fig_scatter d = Inl e'" if "getitem d ''NAME'' = Inl e" for d e
    unfolding fig_scatter_def using that by (rule px_missing) simp
  have c2: "\<exists>e'. fig_bubble d = Inl e'" if n: "getitem d ''NAME'' = Inl e" for d e
  proof (cases "bubble_data d")
    case (Inl e')
    then show ?thesis by (simp add: fig_bubble_def)
  next
    case (Inr b)
    then obtain m where "b = getitem_mask d m"
      by (auto simp: bubble_data_def dropna_def split: sum.splits)
    then have "getitem b ''NAME'' = Inl e"
      using n by (simp add: getitem_getitem_mask)
    from px_missing [OF this, of "''hover_name''"] Inr show ?thesis
      by (simp add: fig_bubble_def)
  qed
  show ?thesis
    using a b c1 c2 by blast
qed

lemma renamed_columns:
  "columns renamed_data =
     (''name'', Object [Some (PyStr ''Loft''), Some (PyStr ''Studio''), Some (PyStr ''Den''), Some (PyStr ''Nook'')])
     # tl (columns sample_data)"
  by (simp add: renamed_data_def sample_data_def)

text \<open>
  C9, as claimed (the hover label is the column \<^verbatim>\<open>name\<close>), fails: on the sample
  with its titles under \<^verbatim>\<open>name\<close>, both builders raise for the missing \<^verbatim>\<open>NAME\<close>.
\<close>

theorem hover_label_not_column_name:
  "getitem renamed_data ''name''
     = Inr (Object [Some (PyStr ''Loft''), Some (PyStr ''Studio''), Some (PyStr ''Den''), Some (PyStr ''Nook'')])
   \<and> fig_scatter renamed_data = Inl (ValueError ''NAME'')
   \<and> fig_bubble renamed_data = Inl (ValueError ''NAME'')"
  by (simp add: fig_scatter_def fig_bubble_def bubble_data_def dropna_def px_def to_table_def
      getitem_def getitem_mask_def renamed_columns sample_data_def)

theorem hover_label_witness:
  "(\<exists>c. fig_scatter sample_data = Inr c \<and>
        (''hover_name'', [Str ''Loft'', Str ''Studio'', Str ''Den'', Str ''Nook'']) \<in> set (channels c))
   \<and> (\<exists>c b s. fig_bubble sample_data = Inr c \<and> bubble_data sample_data = Inr b \<and>
        getitem b ''NAME'' = Inr s \<and> (''hover_name'', cells s) \<in> set (channels c))
   \<and> getitem renamed_data ''NAME'' = Inl (KeyError ''NAME'')
   \<and> (\<exists>e'. fig_scatter renamed_data = Inl e') \<and> (\<exists>e'. fig_bubble renamed_data = Inl e')"
proof -
  note T = hover_label_is_column_NAME
  have n: "getitem sample_data ''NAME''
      = Inr (Object [Some (PyStr ''Loft''), Some (PyStr ''Studio''), Some (PyStr ''Den''), Some (PyStr ''Nook'')])"
    by (simp add: getitem_def sample_data_def)
  obtain c where c: "fig_scatter sample_data = Inr c"
    by (simp add: fig_scatter_def px_def to_table_def sample_data_def)
  from T [THEN conjunct1, rule_format, OF c] n
  have a: "\<exists>c. fig_scatter sample_data = Inr c \<and>
        (''hover_name'', [Str ''Loft'', Str ''Studio'', Str ''Den'', Str ''Nook'']) \<in> set (channels c)"
    using c by auto
  obtain c' where c': "fig_bubble sample_data = Inr c'"
    by (simp add: fig_bubble_def bubble_data_def dropna_def px_def to_table_def getitem_def
        getitem_mask_def sample_data_def)
  from T [THEN conjunct2, THEN conjunct1, rule_format, OF c']
  have b: "\<exists>c b s. fig_bubble sample_data = Inr c \<and> bubble_data sample_data = Inr b \<and>
        getitem b ''NAME'' = Inr s \<and> (''hover_name'', cells s) \<in> set (channels c)"
    using c' by blast
  have k: "getitem renamed_data ''NAME'' = Inl (KeyError ''NAME'')"
    by (simp add: getitem_def renamed_columns sample_data_def)
  from T [THEN conjunct2, THEN conjunct2, rule_format, OF k]
  show ?thesis
    using a b k by blast
qed

section \<open>Aggregates of the charts\<close>

lemma sum_insort_by:
  "sum_list (map f (insort_by le x ys)) = (f x :: nat) + sum_list (map f ys)"
  by (induction ys) simp_all

lemma sum_sort_by: "sum_list (map f (sort_by le xs)) = (sum_list (map f xs) :: nat)"
  by (induction xs) (simp_all add: sort_by_def sum_insort_by)



lemma sum_count_uniques: "sum_list (map (count_list xs) (uniques [] xs)) = length xs"
proof -
  have d: "distinct (uniques [] xs)"
    by (simp add: distinct_uniques)
  have "sum_list (map (count_list xs) (uniques [] xs)) = sum (count_list xs) (set (uniques [] xs))"
    using d by (simp add: sum_list_distinct_conv_sum_set)
  also have "\<dots> = sum (count_list xs) (set xs)"
    by (simp add: set_uniques)
  also have "\<dots> = length xs"
    by (rule sum_count_set) simp_all
  finally show ?thesis .
qed

lemma groupby_size_sum:
  assumes "groupby_size df cols = Inr g"
  shows "\<exists>ks. getitems df cols = Inr ks \<and>
              sum_list (map snd g) = length (filter (\<lambda>k. NaN \<notin> set k) (row_keys df ks))"
proof -
  from assms obtain ks where ks: "getitems df cols = Inr ks"
    and g: "g = (let keyed = filter (\<lambda>k. NaN \<notin> set k) (row_keys df ks)
                 in map (\<lambda>k. (k, count_list keyed k)) (sort_by key_le (uniques [] keyed)))"
    by (auto simp: groupby_size_def Let_def split: sum.splits)
  have "sum_list (map snd g) = length (filter (\<lambda>k. NaN \<notin> set k) (row_keys df ks))"
    by (simp add: g Let_def comp_def sum_sort_by sum_count_uniques)
  with ks show ?thesis by blast
qed

lemma value_counts_sum:
  "sum_list (map snd (value_counts s)) = length (filter (\<lambda>v. v \<noteq> NaN) (cells s))"
proof -
  let ?p = "filter (\<lambda>v. v \<noteq> NaN) (cells s)"
  have "sum_list (map snd (value_counts s))
        = sum_list (map snd (map (\<lambda>v. (v, count_list ?p v)) (uniques [] ?p)))"
    by (simp add: value_counts_def Let_def sum_sort_by)
  also have "\<dots> = length ?p"
    by (simp add: comp_def sum_count_uniques)
  finally show ?thesis .
qed

lemma percentages_sum:
  "sum_list (map (\<lambda>n. 100 * of_nat n / t) cs) = 100 * of_nat (sum_list cs) / (t :: rat)"
  by (induction cs) (simp_all add: add_divide_distrib distrib_left)

lemma percent_of_itself: "0 < (t :: nat) \<Longrightarrow> 100 * of_nat t / (of_nat t :: rat) = 100"
  by simp

lemma pie_percentages_sum: "0 < sum_list counts \<Longrightarrow> sum_list (pie_percentages counts) = 100"
  unfolding pie_percentages_def percentages_sum by (rule percent_of_itself)

lemma getitems_two:
  "getitem d a = Inr x \<Longrightarrow> getitem d b = Inr y \<Longrightarrow> getitems d [a, b] = Inr [cells x, cells y]"
  by (simp add: getitem_Inr)

lemma row_keys_present:
  assumes "length x = length (index d)" "length y = length (index d)" "NaN \<notin> set x" "NaN \<notin> set y"
  shows "length (filter (\<lambda>k. NaN \<notin> set k) (row_keys d [x, y])) = length (index d)"
proof -
  have "NaN \<notin> set k" if "k \<in> set (row_keys d [x, y])" for k
  proof -
    from that obtain i where i: "i < length (index d)" and k: "k = [x ! i, y ! i]"
      by (auto simp: row_keys_def)
    have "x ! i \<in> set x" "y ! i \<in> set y"
      using i assms(1,2) by simp_all
    then show ?thesis
      using assms(3,4) by (auto simp: k)
  qed
  then have "filter (\<lambda>k. NaN \<notin> set k) (row_keys d [x, y]) = row_keys d [x, y]"
    by (intro filter_True) blast
  then show ?thesis
    by (simp add: row_keys_def)
qed

lemma room_type_counts_Inr:
  "getitem d ''room_type'' = Inr s \<Longrightarrow>
   room_type_counts d = Inr [(''room_type'', map fst (value_counts s)),
                            (''count'', map (\<lambda>(v, n). Num (of_nat n)) (value_counts s))]"
  by (simp add: room_type_counts_def counts_table_def)

text \<open>
  C10, as amended. The counts of the grouped bar chart sum to the number of rows whose
  \<^verbatim>\<open>neighbourhood_group\<close> and \<^verbatim>\<open>room_type\<close> are both present, and the counts
  of the room-type pie sum to the number of rows whose \<^verbatim>\<open>room_type\<close> is present. In
  a table where none of these cells is missing, both sums are the number of rows.
  The percentage shares of a pie with at least one counted row sum to 100.
\<close>

theorem counts_sum_to_rows_with_keys:
  "(\<forall>d g. group_room_counts d = Inr g \<longrightarrow>
      (\<exists>ks. getitems d [''neighbourhood_group'', ''room_type''] = Inr ks \<and>
            sum_list (map snd g) = length (filter (\<lambda>k. NaN \<notin> set k) (row_keys d ks))))
   \<and> (\<forall>d gc rc g.
        wf_frame d \<and> getitem d ''neighbourhood_group'' = Inr gc \<and> getitem d ''room_type'' = Inr rc \<and>
        NaN \<notin> set (cells gc) \<and> NaN \<notin> set (cells rc) \<and> group_room_counts d = Inr g \<longrightarrow>
        sum_list (map snd g) = length (index d))
   \<and> (\<forall>d s. getitem d ''room_type'' = Inr s \<longrightarrow>
        room_type_counts d = Inr [(''room_type'', map fst (value_counts s)),
                                 (''count'', map (\<lambda>(v, n). Num (of_nat n)) (value_counts s))] \<and>
        sum_list (map snd (value_counts s)) = length (filter (\<lambda>v. v \<noteq> NaN) (cells s)))
   \<and> (\<forall>d s. wf_frame d \<and> getitem d ''room_type'' = Inr s \<and> NaN \<notin> set (cells s) \<longrightarrow>
        sum_list (map snd (value_counts s)) = length (index d))
   \<and> (\<forall>counts. 0 < sum_list counts \<longrightarrow> sum_list (pie_percentages counts) = 100)"
proof -
  have a: "\<exists>ks. getitems d [''neighbourhood_group'', ''room_type''] = Inr ks \<and>
            sum_list (map snd g) = length (filter (\<lambda>k. NaN \<notin> set k) (row_keys d ks))"
    if "group_room_counts d = Inr g" for d g
    using that unfolding group_room_counts_def by (rule groupby_size_sum)
  have b: "sum_list (map snd g) = length (index d)"
    if h: "wf_frame d \<and> getitem d ''neighbourhood_group'' = Inr gc \<and> getitem d ''room_type'' = Inr rc \<and>
        NaN \<notin> set (cells gc) \<and> NaN \<notin> set (cells rc) \<and> group_room_counts d = Inr g"
    for d gc rc g
  proof -
    have ks: "getitems d [''neighbourhood_group'', ''room_type''] = Inr [cells gc, cells rc]"
      using h by (intro getitems_two) simp_all
    have l: "length (cells gc) = length (index d)" "length (cells rc) = length (index d)"
      using h wf_column by blast+
    from a [of d g] h ks
    have "sum_list (map snd g)
          = length (filter (\<lambda>k. NaN \<notin> set k) (row_keys d [cells gc, cells rc]))"
      by simp
    then show ?thesis
      using row_keys_present [OF l] h by simp
  qed
  have c: "room_type_counts d = Inr [(''room_type'', map fst (value_counts s)),
                                 (''count'', map (\<lambda>(v, n). Num (of_nat n)) (value_counts s))] \<and>
        sum_list (map snd (value_counts s)) = length (filter (\<lambda>v. v \<noteq> NaN) (cells s))"
    if "getitem d ''room_type'' = Inr s" for d s
    using that by (simp add: room_type_counts_Inr value_counts_sum)
  have e: "sum_list (map snd (value_counts s)) = length (index d)"
    if h: "wf_frame d \<and> getitem d ''room_type'' = Inr s \<and> NaN \<notin> set (cells s)" for d s
  proof -
    have "filter (\<lambda>v. v \<noteq> NaN) (cells s) = cells s"
      using h by (intro filter_True) auto
    moreover have "length (cells s) = length (index d)"
      using h wf_column by blast
    ultimately show ?thesis
      by (simp add: value_counts_sum)
  qed
  show ?thesis
    using a b c e pie_percentages_sum by blast
qed

lemmas count_defs = groupby_size_def group_room_counts_def row_keys_def sort_by_def
  value_counts_def room_type_counts_def counts_table_def Let_def

lemma upt_4: "[0..<4] = [0, 1, 2, 3]" and upt_2: "[0..<2] = [0, 1]"
  by (simp_all add: upt_rec)

lemma sample_group_room_counts:
  "group_room_counts sample_data
   = Inr [([Str ''Brooklyn'', Str ''Private room''], 1),
          ([Str ''Manhattan'', Str ''Entire home/apt''], 1),
          ([Str ''Manhattan'', Str ''Private room''], 1)]"
  by (simp add: count_defs sample_data_def upt_4)

lemma sample_room_type_counts:
  "room_type_counts sample_data
   = Inr [(''room_type'', [Str ''Private room'', Str ''Entire home/apt'']),
          (''count'', [Num 2, Num 1])]"
  by (simp add: count_defs getitem_def sample_data_def)

lemma sample_untouched:
  "filter_stage \<lparr>data = sample_data, filtered_data = None\<rparr> untouched
   = Inr \<lparr>data = sample_data, filtered_data = Some sample_data\<rparr>"
  by (simp add: filter_stage_def filter_groups_def filter_room_types_def
      unique_neighbourhood_groups_def unique_room_types_def filter_isin_def getitem_def
      getitem_mask_def multiselect_def unique_def isin_def untouched_def sample_data_def)

text \<open>
  C10, as claimed (both sums are the number of rows of every filtered table that is
  not empty), fails on the sample with nothing deselected: the filtered table is the
  whole sample, of four rows, and listing 3, which has no \<^verbatim>\<open>room_type\<close>, is in no
  group: the counts of the bar chart sum to 3, and so do those of the pie.
\<close>

theorem counts_miss_rows_without_room_type:
  "filter_stage \<lparr>data = sample_data, filtered_data = None\<rparr> untouched
     = Inr \<lparr>data = sample_data, filtered_data = Some sample_data\<rparr>
   \<and> \<not> empty sample_data
   \<and> length (index sample_data) = 4
   \<and> group_room_counts sample_data
       = Inr [([Str ''Brooklyn'', Str ''Private room''], 1),
              ([Str ''Manhattan'', Str ''Entire home/apt''], 1),
              ([Str ''Manhattan'', Str ''Private room''], 1)]
   \<and> sum_list (map snd [([Str ''Brooklyn'', Str ''Private room''], 1 :: nat),
                         ([Str ''Manhattan'', Str ''Entire home/apt''], 1),
                         ([Str ''Manhattan'', Str ''Private room''], 1)])
       \<noteq> length (index sample_data)
   \<and> room_type_counts sample_data
       = Inr [(''room_type'', [Str ''Private room'', Str ''Entire home/apt'']),
              (''count'', [Num 2, Num 1])]"
  by (simp add: sample_untouched sample_group_room_counts sample_room_type_counts)
    (simp add: sample_data_def empty_def)

lemma manhattan_wf: "wf_frame manhattan_data"
  by (simp add: wf_frame_def manhattan_data_def)

lemma manhattan_groups:
  "getitem manhattan_data ''neighbourhood_group''
   = Inr (Object [Some (PyStr ''Manhattan''), Some (PyStr ''Manhattan'')])"
  by (simp add: getitem_def manhattan_data_def)

lemma manhattan_rooms:
  "getitem manhattan_data ''room_type''
   = Inr (Object [Some (PyStr ''Entire home/apt''), Some (PyStr ''Private room'')])"
  by (simp add: getitem_def manhattan_data_def)

lemma manhattan_group_room_counts:
  "group_room_counts manhattan_data
   = Inr [([Str ''Manhattan'', Str ''Entire home/apt''], 1),
          ([Str ''Manhattan'', Str ''Private room''], 1)]"
  by (simp add: count_defs manhattan_data_def upt_2)

theorem counts_sum_witness:
  "wf_frame manhattan_data
   \<and> (\<exists>gc rc g. getitem manhattan_data ''neighbourhood_group'' = Inr gc \<and>
         getitem manhattan_data ''room_type'' = Inr rc \<and>
         NaN \<notin> set (cells gc) \<and> NaN \<notin> set (cells rc) \<and>
         group_room_counts manhattan_data = Inr g \<and>
         sum_list (map snd g) = length (index manhattan_data))
   \<and> (\<exists>g ks. group_room_counts sample_data = Inr g \<and>
         getitems sample_data [''neighbourhood_group'', ''room_type''] = Inr ks \<and>
         sum_list (map snd g) = length (filter (\<lambda>k. NaN \<notin> set k) (row_keys sample_data ks)))
   \<and> (\<exists>s. getitem manhattan_data ''room_type'' = Inr s \<and> NaN \<notin> set (cells s) \<and>
         sum_list (map snd (value_counts s)) = length (filter (\<lambda>v. v \<noteq> NaN) (cells s)) \<and>
         sum_list (map snd (value_counts s)) = length (index manhattan_data))
   \<and> 0 < sum_list [2, 1 :: nat]
   \<and> sum_list (pie_percentages [2, 1]) = 100"
proof -
  note T = counts_sum_to_rows_with_keys
  let ?gc = "Object [Some (PyStr ''Manhattan''), Some (PyStr ''Manhattan'')]"
  let ?rc = "Object [Some (PyStr ''Entire home/apt''), Some (PyStr ''Private room'')]"
  have n: "NaN \<notin> set (cells ?gc)" "NaN \<notin> set (cells ?rc)"
    by simp_all
  have "sum_list (map snd [([Str ''Manhattan'', Str ''Entire home/apt''], 1 :: nat),
          ([Str ''Manhattan'', Str ''Private room''], 1)]) = length (index manhattan_data)"
    by (rule T [THEN conjunct2, THEN conjunct1, rule_format, of manhattan_data ?gc ?rc])
      (simp add: manhattan_wf manhattan_groups manhattan_rooms manhattan_group_room_counts)
  then have a: "\<exists>gc rc g. getitem manhattan_data ''neighbourhood_group'' = Inr gc \<and>
         getitem manhattan_data ''room_type'' = Inr rc \<and>
         NaN \<notin> set (cells gc) \<and> NaN \<notin> set (cells rc) \<and>
         group_room_counts manhattan_data = Inr g \<and>
         sum_list (map snd g) = length (index manhattan_data)"
    using manhattan_groups manhattan_rooms n manhattan_group_room_counts by blast
  from T [THEN conjunct1, rule_format, OF sample_group_room_counts]
  have b: "\<exists>g ks. group_room_counts sample_data = Inr g \<and>
         getitems sample_data [''neighbourhood_group'', ''room_type''] = Inr ks \<and>
         sum_list (map snd g) = length (filter (\<lambda>k. NaN \<notin> set k) (row_keys sample_data ks))"
    using sample_group_room_counts by blast
  have c1: "sum_list (map snd (value_counts ?rc)) = length (filter (\<lambda>v. v \<noteq> NaN) (cells ?rc))"
    using T [THEN conjunct2, THEN conjunct2, THEN conjunct1, rule_format, OF manhattan_rooms]
    by simp
  have c2: "sum_list (map snd (value_counts ?rc)) = length (index manhattan_data)"
    by (rule T [THEN conjunct2, THEN conjunct2, THEN conjunct2, THEN conjunct1, rule_format])
      (simp add: manhattan_wf manhattan_rooms)
  have c: "\<exists>s. getitem manhattan_data ''room_type'' = Inr s \<and> NaN \<notin> set (cells s) \<and>
         sum_list (map snd (value_counts s)) = length (filter (\<lambda>v. v \<noteq> NaN) (cells s)) \<and>
         sum_list (map snd (value_counts s)) = length (index manhattan_data)"
    using manhattan_rooms n(2) c1 c2 by blast
  have p: "0 < sum_list [2, 1 :: nat]"
    by simp
  have e: "sum_list (pie_percentages [2, 1]) = 100"
    by (rule T [THEN conjunct2, THEN conjunct2, THEN conjunct2, THEN conjunct2, rule_format, OF p])
  show ?thesis
    using manhattan_wf a b c p e by (intro conjI)
qed







lemma sample_reviews:
  "getitem sample_data ''reviews_per_month'' = Inr (Float64 [Some (1 / 2), None, Some 1, Some 2])"
  by (simp add: getitem_def sample_data_def)

lemma sample_bubble:
  "bubble_data sample_data = Inr (getitem_mask sample_data [True, False, True, True])"
  by (simp add: bubble_data_def dropna_def sample_reviews)

lemma sample_avg:
  "avg_reviews_by_group sample_data = Inr [(Str ''Brooklyn'', Num 2), (Str ''Manhattan'', Num (3 / 4))]"
  by (simp add: avg_reviews_by_group_def groupby_mean_def sample_groups sample_reviews
      sort_by_def mean_def)


section \<open>A full run, and when the loader succeeds\<close>

text \<open>
  On the sample file with nothing deselected the script runs to its last line and
  shows nine charts: the script has nine chart builders.
\<close>

lemma sample_fig_bar: "\<exists>c. fig_bar sample_data = Inr c"
  by (simp add: fig_bar_def sample_group_room_counts px_def)

lemma sample_fig_pie_room_type: "\<exists>c. fig_pie_room_type sample_data = Inr c"
  by (simp add: fig_pie_room_type_def sample_room_type_counts px_def)

lemma sample_fig_pie_group: "\<exists>c. fig_pie_group sample_data = Inr c"
  by (simp add: fig_pie_group_def sample_groups)

lemma sample_fig_pie_instant: "\<exists>c. fig_pie_instant sample_data = Inr c"
  by (simp add: fig_pie_instant_def counts_table_def getitem_def sample_data_def px_def)

lemma sample_fig_avg_reviews: "\<exists>c. fig_avg_reviews sample_data = Inr c"
  by (simp add: fig_avg_reviews_def sample_avg px_def)

lemma sample_fig_bubble: "\<exists>c. fig_bubble sample_data = Inr c"
  by (simp add: fig_bubble_def sample_bubble)
    (simp add: px_def to_table_def getitem_mask_def sample_data_def)

lemma sample_fig_scatter: "\<exists>c. fig_scatter sample_data = Inr c"
  by (simp add: fig_scatter_def px_def to_table_def sample_data_def)

lemma sample_fig_box: "\<exists>c. fig_box sample_data = Inr c"
  by (simp add: fig_box_def px_def to_table_def sample_data_def)

lemma sample_fig_heatmap: "\<exists>c. fig_heatmap sample_data = Inr c"
  by (simp add: fig_heatmap_def numeric_cols_def sample_data_def)

lemma sample_run_steps:
  "snd (run_steps chart_steps sample_data out) = Finished
   \<and> length (filter is_chart (fst (run_steps chart_steps sample_data out)))
       = length (filter is_chart out) + 9"
proof -
  obtain c1 c2 c3 c4 c5 c6 c7 c8 c9 where
    "fig_bar sample_data = Inr c1" "fig_pie_room_type sample_data = Inr c2"
    "fig_pie_group sample_data = Inr c3" "fig_pie_instant sample_data = Inr c4"
    "fig_avg_reviews sample_data = Inr c5" "fig_bubble sample_data = Inr c6"
    "fig_scatter sample_data = Inr c7" "fig_box sample_data = Inr c8"
    "fig_heatmap sample_data = Inr c9"
    using sample_fig_bar sample_fig_pie_room_type sample_fig_pie_group sample_fig_pie_instant
      sample_fig_avg_reviews sample_fig_bubble sample_fig_scatter sample_fig_box
      sample_fig_heatmap
    by blast
  then show ?thesis
    by (simp add: chart_steps_def)
qed

lemma full_run_on_sample:
  "snd (main sample_fs untouched) = Finished
   \<and> length (filter is_chart (fst (main sample_fs untouched))) = 9"
proof -
  have e: "\<not> empty sample_data"
    by (simp add: empty_def sample_data_def)
  from dashboard_filtered [OF sample_untouched, of sample_data
      "[Set_page_config, Success ''Data loaded successfully!'']"]
  obtain gs rs where
    "dashboard \<lparr>data = sample_data, filtered_data = None\<rparr> untouched
       [Set_page_config, Success ''Data loaded successfully!'']
     = run_steps chart_steps sample_data
         ([Set_page_config, Success ''Data loaded successfully!''] @
          [Sidebar_header ''Filter Options'',
           Sidebar_multiselect ''Select Neighbourhood Group(s)'' gs gs,
           Sidebar_multiselect ''Select Room Type(s)'' rs rs,
           Title ''Airbnb Listings Dashboard'',
           Markdown ''Explore key metrics and distributions of Airbnb listings using this interactive dashboard.''])"
    using e by auto
  then show ?thesis
    using sample_run_steps by (simp add: main_def load_sample)
qed

text \<open>
  The loader returns a table whenever the file exists, each numeric column is
  convertible and the column \<^verbatim>\<open>last_review\<close> is there, once.
\<close>

lemma convertible_converts: "convertible df c \<Longrightarrow> \<exists>s s'. getitem df c = Inr s \<and> convert_column s = Inr s'"
proof -
  assume "convertible df c"
  then obtain s where s: "getitem df c = Inr s"
    and k: "case s of Object xs \<Rightarrow> list_all currency_cell xs | _ \<Rightarrow> True"
    by (auto simp: convertible_def)
  have "\<exists>s'. convert_column s = Inr s'"
  proof (cases s)
    case (Object xs)
    then show ?thesis using k currency_column_converts [of xs] by auto
  qed (simp_all add: convert_column_other)
  with s show ?thesis by blast
qed

lemma convert_numeric_cols_succeeds:
  "distinct cols \<Longrightarrow> list_all (convertible df) cols \<Longrightarrow>
   \<exists>df'. convert_numeric_cols cols df = Inr df' \<and> (\<forall>c. c \<notin> set cols \<longrightarrow> getitem df' c = getitem df c)"
proof (induction cols arbitrary: df)
  case Nil
  then show ?case by simp
next
  case (Cons col cols)
  from Cons.prems(2) obtain s s' where s: "getitem df col = Inr s" and s': "convert_column s = Inr s'"
    using convertible_converts [of df col] by auto
  let ?df = "setitem df col s'"
  have "convertible ?df c" if "c \<in> set cols" for c
  proof -
    from that Cons.prems have "c \<noteq> col" "convertible df c"
      by (auto simp: list_all_iff)
    then show ?thesis
      by (simp add: convertible_def getitem_setitem_other)
  qed
  then have "list_all (convertible ?df) cols"
    by (simp add: list_all_iff)
  with Cons.IH [of ?df] Cons.prems(1) obtain df' where
    d: "convert_numeric_cols cols ?df = Inr df'" and
    o: "\<forall>c. c \<notin> set cols \<longrightarrow> getitem df' c = getitem ?df c"
    by auto
  have "\<forall>c. c \<notin> set (col # cols) \<longrightarrow> getitem df' c = getitem df c"
    using o by (auto simp: getitem_setitem_other)
  then show ?case
    using s s' d by auto
qed

lemma load_data_succeeds:
  assumes "fs file_path = Some raw"
    "list_all (convertible (clean_column_names raw)) numeric_cols"
    "getitem (clean_column_names raw) ''last_review'' = Inr s"
  shows "\<exists>d. load_data fs file_path = Inr d"
proof -
  have "distinct numeric_cols"
    by (simp add: numeric_cols_def)
  from convert_numeric_cols_succeeds [OF this assms(2)] obtain df' where
    d: "convert_numeric_cols numeric_cols (clean_column_names raw) = Inr df'" and
    o: "\<forall>c. c \<notin> set numeric_cols \<longrightarrow> getitem df' c = getitem (clean_column_names raw) c"
    by blast
  have "getitem df' ''last_review'' = Inr s"
    using o assms(3) by (simp add: numeric_cols_def)
  then have "\<exists>d. convert_last_review df' = Inr d"
    by (simp add: getitem_Inr convert_last_review_def)
  then show ?thesis
    using assms(1) d by (auto simp: load_data_def read_csv_def)
qed

end
